theory Spec2Isabelle
  imports Complex_Main "HOL-Library.Sublist"
begin

section \<open>JavaScript values\<close>

text \<open>
  The web application passes analysis results and request bodies around as untyped
  (\<open>any\<close>) values. They are modelled by the JSON-shaped values below. An object is an
  association list from field names to values, in the order of its keys; numbers are
  reals (NaN and the infinities are not JSON values and are left out).
\<close>

datatype jsval =
    JUndefined
  | JNull
  | JBool bool
  | JNum real
  | JStr string
  | JArr "jsval list"
  | JObj "(string \<times> jsval) list"

text \<open>
  The exceptions of the code modelled here: the TypeError that the engine throws when a
  property is read from \<open>undefined\<close> or \<open>null\<close> (it carries the name of the
  property), the TypeError that \<open>Array.prototype.reduce\<close> throws on an empty array when
  no initial value is given, and an \<open>Error\<close> built by the code with a message. The
  message texts of the two TypeErrors are the engine's.
\<close>

datatype js_error =
    TypeError_read string
  | TypeError_reduce
  | Error string

text \<open>Truthiness, as tested by \<open>!x\<close>, \<open>x || y\<close> and \<open>if (x)\<close>.\<close>

fun truthy :: "jsval \<Rightarrow> bool" where
  "truthy JUndefined = False"
| "truthy JNull = False"
| "truthy (JBool b) = b"
| "truthy (JNum n) = (n \<noteq> 0)"
| "truthy (JStr s) = (s \<noteq> [])"
| "truthy (JArr xs) = True"
| "truthy (JObj fs) = True"

definition js_or :: "jsval \<Rightarrow> jsval \<Rightarrow> jsval" where
  "js_or x y = (if truthy x then x else y)"

text \<open>
  Reading a property \<open>v.k\<close> (also what a destructuring pattern \<open>{ k } = v\<close> does):
  it throws a TypeError on \<open>undefined\<close> and \<open>null\<close>, looks the key up in an object,
  and gives \<open>undefined\<close> for a key that is absent. None of the names read by the code
  modelled here is a built-in property of a boolean, number, string or array, so on
  those the read gives \<open>undefined\<close>.
\<close>

definition lookup_field :: "(string \<times> jsval) list \<Rightarrow> string \<Rightarrow> jsval" where
  "lookup_field fs k = (case map_of fs k of None \<Rightarrow> JUndefined | Some v \<Rightarrow> v)"

fun read_prop :: "jsval \<Rightarrow> string \<Rightarrow> js_error + jsval" where
  "read_prop JUndefined k = Inl (TypeError_read k)"
| "read_prop JNull k = Inl (TypeError_read k)"
| "read_prop (JObj fs) k = Inr (lookup_field fs k)"
| "read_prop v k = Inr JUndefined"

definition has_field :: "jsval \<Rightarrow> string \<Rightarrow> bool" where
  "has_field v k = (case v of JObj fs \<Rightarrow> k \<in> fst ` set fs | _ \<Rightarrow> False)"

section \<open>The classify-audio route (src/app/api/classify-audio/route.ts)\<close>

datatype response = Response (status: nat) (body: jsval)

text \<open>\<open>NextResponse.json(v)\<close> answers with status 200 unless a status is given.\<close>

definition json_response :: "jsval \<Rightarrow> response" where
  "json_response v = Response 200 v"

text \<open>
  What the handler is given from outside: \<open>JSON.parse\<close> (its SyntaxError message on
  the left), the message text of the engine's TypeErrors, the platform test
  \<open>process.platform === "win32"\<close> and \<open>process.cwd()\<close>.
\<close>

record runtime =
  json_parse :: "string \<Rightarrow> string + jsval"
  read_error_text :: "string \<Rightarrow> string"
  reduce_error_text :: string
  win32 :: bool
  cwd :: string

fun error_message :: "runtime \<Rightarrow> js_error \<Rightarrow> string" where
  "error_message rt (TypeError_read k) = read_error_text rt k"
| "error_message rt TypeError_reduce = reduce_error_text rt"
| "error_message rt (Error m) = m"

text \<open>
  \<open>String.prototype.trim\<close> removes white space and line terminators from both ends
  of a string. A string is its UTF-8 bytes here (what the child writes to its stdout),
  so the characters removed are sequences of one, two or three bytes: U+0009 to U+000D
  and U+0020; U+00A0; U+1680, U+2000 to U+200A, U+2028, U+2029, U+202F, U+205F, U+3000
  and U+FEFF.
\<close>

definition js_whitespace :: "char \<Rightarrow> bool" where
  "js_whitespace c = (c \<in> set [CHR 0x09, CHR 0x0A, CHR 0x0B, CHR 0x0C, CHR 0x0D, CHR 0x20])"

definition js_whitespace2 :: "char \<Rightarrow> char \<Rightarrow> bool" where
  "js_whitespace2 a b = (a = CHR 0xC2 \<and> b = CHR 0xA0)"

definition js_whitespace3 :: "char \<Rightarrow> char \<Rightarrow> char \<Rightarrow> bool" where
  "js_whitespace3 a b c =
     ((a = CHR 0xE1 \<and> b = CHR 0x9A \<and> c = CHR 0x80)
      \<or> (a = CHR 0xE2 \<and> b = CHR 0x80
          \<and> c \<in> set [CHR 0x80, CHR 0x81, CHR 0x82, CHR 0x83, CHR 0x84, CHR 0x85, CHR 0x86,
                        CHR 0x87, CHR 0x88, CHR 0x89, CHR 0x8A, CHR 0xA8, CHR 0xA9, CHR 0xAF])
      \<or> (a = CHR 0xE2 \<and> b = CHR 0x81 \<and> c = CHR 0x9F)
      \<or> (a = CHR 0xE3 \<and> b = CHR 0x80 \<and> c = CHR 0x80)
      \<or> (a = CHR 0xEF \<and> b = CHR 0xBB \<and> c = CHR 0xBF))"

fun trim_start :: "string \<Rightarrow> string" where
  "trim_start (a # b # c # s) =
     (if js_whitespace3 a b c then trim_start s
      else if js_whitespace2 a b then trim_start (c # s)
      else if js_whitespace a then trim_start (b # c # s)
      else a # b # c # s)"
| "trim_start [a, b] =
     (if js_whitespace2 a b then []
      else if js_whitespace a then trim_start [b]
      else [a, b])"
| "trim_start [a] = (if js_whitespace a then [] else [a])"
| "trim_start [] = []"

text \<open>The same from the end, on the reversed string.\<close>

fun trim_end_reversed :: "string \<Rightarrow> string" where
  "trim_end_reversed (c # b # a # s) =
     (if js_whitespace3 a b c then trim_end_reversed s
      else if js_whitespace2 b c then trim_end_reversed (a # s)
      else if js_whitespace c then trim_end_reversed (b # a # s)
      else c # b # a # s)"
| "trim_end_reversed [c, b] =
     (if js_whitespace2 b c then []
      else if js_whitespace c then trim_end_reversed [b]
      else [c, b])"
| "trim_end_reversed [c] = (if js_whitespace c then [] else [c])"
| "trim_end_reversed [] = []"

definition trim :: "string \<Rightarrow> string" where
  "trim s = rev (trim_end_reversed (rev (trim_start s)))"

text \<open>
  Writing the input to the child's stdin settles nothing (an exception of the write is
  caught and logged), and \<open>python.kill()\<close> is recorded as a flag.
  The events the handler's callbacks see after the spawn, in the order they occur:
  data on the child's stdout and stderr, the child's \<open>error\<close> event, its \<open>close\<close>
  event with the exit code (\<open>null\<close> when a signal ended it), and the 60 second timer.
\<close>

datatype proc_event =
    StdoutData string
  | StderrData string
  | ProcError string
  | ProcClose "int option"
  | TimerFired

record run_state =
  stdout :: string
  stderr :: string
  reply :: "response option"
  killed :: bool

text \<open>A promise is settled by the first call of \<open>resolve\<close>; later calls do nothing.\<close>

definition resolve :: "response \<Rightarrow> run_state \<Rightarrow> run_state" where
  "resolve r s = (case reply s of None \<Rightarrow> s\<lparr>reply := Some r\<rparr> | Some _ \<Rightarrow> s)"

definition start_failure_response :: "string \<Rightarrow> response" where
  "start_failure_response m =
     Response 500 (JObj [(''error'', JStr ''Failed to start python process''), (''details'', JStr m)])"

definition parse_failure_response :: "string \<Rightarrow> string \<Rightarrow> string \<Rightarrow> response" where
  "parse_failure_response m out err =
     Response 500 (JObj [(''error'', JStr ''Failed to parse classification results''),
                         (''details'', JStr m),
                         (''stdout'', JStr out),
                         (''stderr'', JStr err)])"

definition exit_code_value :: "int option \<Rightarrow> jsval" where
  "exit_code_value c = (case c of None \<Rightarrow> JNull | Some n \<Rightarrow> JNum (real_of_int n))"

definition classification_failed_response :: "int option \<Rightarrow> string \<Rightarrow> string \<Rightarrow> response" where
  "classification_failed_response c err out =
     Response 500 (JObj [(''error'', JStr ''MediaPipe classification failed''),
                         (''code'', exit_code_value c),
                         (''stderr'', JStr err),
                         (''stdout'', JStr out)])"

definition timeout_response :: response where
  "timeout_response =
     Response 408 (JObj [(''error'', JStr ''Classification timeout''),
                         (''message'', JStr ''MediaPipe classification took too long'')])"

definition internal_error_response :: "string \<Rightarrow> response" where
  "internal_error_response m =
     Response 500 (JObj [(''error'', JStr ''Internal server error''), (''details'', JStr m)])"

definition no_audio_response :: response where
  "no_audio_response = Response 400 (JObj [(''error'', JStr ''No audio data provided'')])"

fun on_event :: "runtime \<Rightarrow> run_state \<Rightarrow> proc_event \<Rightarrow> run_state" where
  "on_event rt s (StdoutData d) = s\<lparr>stdout := stdout s @ d\<rparr>"
| "on_event rt s (StderrData d) = s\<lparr>stderr := stderr s @ d\<rparr>"
| "on_event rt s (ProcError m) = resolve (start_failure_response m) s"
| "on_event rt s (ProcClose c) =
     (if c = Some 0 then
        (case json_parse rt (trim (stdout s)) of
           Inr jsonResult \<Rightarrow> resolve (json_response jsonResult) s
         | Inl m \<Rightarrow> resolve (parse_failure_response m (stdout s) (stderr s)) s)
      else resolve (classification_failed_response c (stderr s) (stdout s)) s)"
| "on_event rt s TimerFired = resolve timeout_response (s\<lparr>killed := True\<rparr>)"

definition run_events :: "runtime \<Rightarrow> run_state \<Rightarrow> proc_event list \<Rightarrow> run_state" where
  "run_events rt s es = foldl (on_event rt) s es"

text \<open>
  The child process as the handler starts it: the command, the segments that
  \<open>path.join\<close> puts together into the script path, and the object whose
  \<open>JSON.stringify\<close> is written to the child's stdin.
\<close>

record spawned_process =
  command :: string
  script_path :: "string list"
  stdin_data :: jsval

record handled =
  answer :: "response option"
  child :: "spawned_process option"
  child_killed :: bool

definition POST :: "runtime \<Rightarrow> string + jsval \<Rightarrow> proc_event list \<Rightarrow> handled" where
  "POST rt request_json events =
     (case request_json of
        Inl m \<Rightarrow> \<lparr>answer = Some (internal_error_response m), child = None, child_killed = False\<rparr>
      | Inr b \<Rightarrow>
          (case read_prop b ''audioData'' of
             Inl e \<Rightarrow> \<lparr>answer = Some (internal_error_response (error_message rt e)),
                       child = None, child_killed = False\<rparr>
           | Inr audioData \<Rightarrow>
               (case read_prop b ''filename'' of
                  Inl e \<Rightarrow> \<lparr>answer = Some (internal_error_response (error_message rt e)),
                            child = None, child_killed = False\<rparr>
                | Inr filename \<Rightarrow>
                    if \<not> truthy audioData then
                      \<lparr>answer = Some no_audio_response, child = None, child_killed = False\<rparr>
                    else
                      let python = \<lparr>command = (if win32 rt then ''python'' else ''python3''),
                                    script_path = [cwd rt, ''scripts'', ''mediapipe_audio_classifier.py''],
                                    stdin_data = JObj [(''audioData'', audioData),
                                                       (''filename'', js_or filename (JStr ''uploaded_audio''))]\<rparr>;
                          s = run_events rt \<lparr>stdout = [], stderr = [], reply = None, killed = False\<rparr> events
                      in \<lparr>answer = reply s, child = Some python, child_killed = killed s\<rparr>)))"

text \<open>
  The part of an event trace that only carries output of the child: as long as nothing
  else has happened, the child is running and no callback has settled the promise.
\<close>

fun is_output :: "proc_event \<Rightarrow> bool" where
  "is_output (StdoutData d) = True"
| "is_output (StderrData d) = True"
| "is_output e = False"

fun stdout_of :: "proc_event list \<Rightarrow> string" where
  "stdout_of [] = []"
| "stdout_of (StdoutData d # es) = d @ stdout_of es"
| "stdout_of (e # es) = stdout_of es"

fun stderr_of :: "proc_event list \<Rightarrow> string" where
  "stderr_of [] = []"
| "stderr_of (StderrData d # es) = d @ stderr_of es"
| "stderr_of (e # es) = stderr_of es"

text \<open>A runtime to evaluate the handler on: its parser accepts the empty object only.\<close>

definition sample_parse :: "string \<Rightarrow> string + jsval" where
  "sample_parse s = (if s = ''{}'' then Inr (JObj []) else Inl ''Unexpected token'')"

definition sample_read_error_text :: "string \<Rightarrow> string" where
  "sample_read_error_text k = ''Cannot read properties of null (reading '' @ k @ '')''"

definition sample_runtime :: runtime where
  "sample_runtime = \<lparr>json_parse = sample_parse,
                      read_error_text = sample_read_error_text,
                      reduce_error_text = ''Reduce of empty array with no initial value'',
                      win32 = False, cwd = ''/app''\<rparr>"

section \<open>The database service (src/lib/database.ts)\<close>

text \<open>
  Sequencing of steps that may throw: the first exception ends the computation.
\<close>

definition and_then :: "js_error + 'a \<Rightarrow> ('a \<Rightarrow> js_error + 'b) \<Rightarrow> js_error + 'b" where
  "and_then r f = (case r of Inl e \<Rightarrow> Inl e | Inr v \<Rightarrow> f v)"

text \<open>
  \<open>Number.prototype.toString\<close> on an integer, as string concatenation applies it to
  \<open>Date.now()\<close> (a count of milliseconds, far below the 21 digits from which the
  exponent notation is used).
\<close>

definition digit_char :: "nat \<Rightarrow> char" where
  "digit_char d = ''0123456789'' ! d"

function digits :: "nat \<Rightarrow> string" where
  "digits n = (if n < 10 then [digit_char n] else digits (n div 10) @ [digit_char (n mod 10)])"
  by pat_completeness auto
termination
  by (relation "measure (\<lambda>n. n)") auto

declare digits.simps [simp del]

definition number_to_string :: "int \<Rightarrow> string" where
  "number_to_string i = (if i < 0 then CHR ''-'' # digits (nat (- i)) else digits (nat i))"

text \<open>
  What \<open>supabase.from("audio_analyses").insert([record]).select()\<close> gives back: an
  error with its message, or the rows inserted.
\<close>

datatype insert_result = InsertError string | InsertData "jsval list"

text \<open>
  The service's surroundings: \<open>isSupabaseAvailable()\<close>, the value \<open>Date.now()\<close> has
  when the demo timer fires, and the insert into \<open>audio_analyses\<close>.
\<close>

record database =
  available :: bool
  now :: int
  insert_analysis :: "jsval \<Rightarrow> insert_result"

text \<open>
  The object literal \<open>analysisRecord\<close> of \<open>saveAnalysis\<close>, field by field in the order
  the literal evaluates them. \<open>audioData.analysisResults\<close> is read anew for every field.
\<close>

definition result_field :: "jsval \<Rightarrow> string \<Rightarrow> js_error + jsval" where
  "result_field audioData k = and_then (read_prop audioData ''analysisResults'') (\<lambda>r. read_prop r k)"

definition analysisRecord :: "jsval \<Rightarrow> js_error + jsval" where
  "analysisRecord audioData =
     and_then (read_prop audioData ''name'') (\<lambda>filename.
     and_then (result_field audioData ''duration'') (\<lambda>duration.
     and_then (result_field audioData ''sampleRate'') (\<lambda>sample_rate.
     and_then (result_field audioData ''averageRMS'') (\<lambda>average_rms.
     and_then (result_field audioData ''detectedSounds'') (\<lambda>detected_sounds.
     and_then (result_field audioData ''dominantFrequency'') (\<lambda>dominant_frequency.
     and_then (result_field audioData ''maxDecibels'') (\<lambda>max_decibels.
     and_then (result_field audioData ''soundEvents'') (\<lambda>sound_events.
     and_then (result_field audioData ''frequencySpectrum'') (\<lambda>frequency_spectrum.
     and_then (read_prop audioData ''analysisResults'') (\<lambda>analysis_results.
       Inr (JObj [(''filename'', filename),
                  (''duration'', duration),
                  (''sample_rate'', sample_rate),
                  (''average_rms'', average_rms),
                  (''detected_sounds'', detected_sounds),
                  (''dominant_frequency'', dominant_frequency),
                  (''max_decibels'', max_decibels),
                  (''sound_events'', js_or sound_events (JArr [])),
                  (''frequency_spectrum'', js_or frequency_spectrum (JArr [])),
                  (''analysis_results'', analysis_results)])))))))))))"

definition missing_relation_text :: string where
  "missing_relation_text =
     ''relation '' @ [CHR 0x22] @ ''public.audio_analyses'' @ [CHR 0x22] @ '' does not exist''"

text \<open>
  \<open>saveAnalysis\<close>: the delay in milliseconds that the function itself waits before its
  promise settles, and the settlement (an exception on the left, the value on the
  right). The \<open>catch\<close> of the source throws again what it caught.
  \<open>insert_outcome\<close> is what the function makes of the answer to its insert.
\<close>

definition insert_outcome :: "insert_result \<Rightarrow> js_error + jsval" where
  "insert_outcome res =
     (case res of
        InsertError message \<Rightarrow>
          if sublist missing_relation_text message
          then Inl (Error ''Database tables not found. Please run the SQL setup script.'')
          else Inr JNull
      | InsertData data \<Rightarrow>
          (case data of
             [] \<Rightarrow> Inl (TypeError_read ''id'')
           | row # _ \<Rightarrow> read_prop row ''id''))"

definition saveAnalysis :: "database \<Rightarrow> jsval \<Rightarrow> nat \<times> (js_error + jsval)" where
  "saveAnalysis db audioData =
     (if \<not> available db then (1000, Inr (JStr (''demo-id-'' @ number_to_string (now db))))
      else (0, and_then (analysisRecord audioData)
                 (\<lambda>record. insert_outcome (insert_analysis db record))))"

text \<open>
  The table \<open>audio_analyses\<close> of src/scripts/setup_database.sql. The ten columns that
  the record fills are all declared NOT NULL, here in the order of the table. The three
  JSONB columns have a default, which stands in for a field that is absent from the
  JSON sent (\<open>JSON.stringify\<close> leaves out a field whose value is \<open>undefined\<close>); an
  absent field of another column is NULL. Column types are not modelled, and the
  columns \<open>created_at\<close> and \<open>user_id\<close>, which the record does not fill, are left out.
\<close>

definition not_null_columns :: "string list" where
  "not_null_columns = [''filename'', ''duration'', ''sample_rate'', ''average_rms'',
                       ''detected_sounds'', ''dominant_frequency'', ''max_decibels'',
                       ''sound_events'', ''frequency_spectrum'', ''analysis_results'']"

definition column_default :: "string \<Rightarrow> jsval" where
  "column_default c =
     (if c = ''sound_events'' \<or> c = ''frequency_spectrum'' then JArr []
      else if c = ''analysis_results'' then JObj []
      else JNull)"

definition column_value :: "jsval \<Rightarrow> string \<Rightarrow> jsval" where
  "column_value record c =
     (case record of
        JObj fs \<Rightarrow> (case lookup_field fs c of JUndefined \<Rightarrow> column_default c | v \<Rightarrow> v)
      | _ \<Rightarrow> column_default c)"

text \<open>The message of the database for a NULL in a NOT NULL column.\<close>

definition not_null_text :: "string \<Rightarrow> string" where
  "not_null_text c =
     ''null value in column '' @ [CHR 0x22] @ c @ [CHR 0x22] @ '' of relation '' @ [CHR 0x22]
       @ ''audio_analyses'' @ [CHR 0x22] @ '' violates not-null constraint''"

text \<open>
  The insert of one record into the table, with the id that the table generates for
  the row: the answer to the insert and the rows of the table after it. A record with
  a NULL in a NOT NULL column is refused and the table stays as it is.
\<close>

definition audio_analyses_insert :: "string \<Rightarrow> jsval list \<Rightarrow> jsval \<Rightarrow> insert_result \<times> jsval list" where
  "audio_analyses_insert new_id table record =
     (case find (\<lambda>c. column_value record c = JNull) not_null_columns of
        Some c \<Rightarrow> (InsertError (not_null_text c), table)
      | None \<Rightarrow>
          (let row = JObj ((''id'', JStr new_id) # map (\<lambda>c. (c, column_value record c)) not_null_columns)
           in (InsertData [row], table @ [row])))"

text \<open>The eight names under which the analysis result carries its data.\<close>

definition result_names :: "string list" where
  "result_names = [''duration'', ''sampleRate'', ''averageRMS'', ''detectedSounds'',
                   ''dominantFrequency'', ''maxDecibels'', ''soundEvents'', ''frequencySpectrum'']"

text \<open>
  An upload whose analysis result carries its data under other names than the eight.
\<close>

definition renamed_fields :: "(string \<times> jsval) list" where
  "renamed_fields =
     [(''length'', JNum 2), (''rate'', JNum 44100), (''rms'', JNum (1 / 10)),
      (''count'', JNum 1), (''peakFrequency'', JNum 440), (''peakDb'', JNum (- 6)),
      (''events'', JArr [JObj [(''time'', JNum (1 / 2)), (''type'', JStr ''Tone'')]]),
      (''spectrum'', JArr [JObj [(''frequency'', JNum 440), (''magnitude'', JNum 1)]])]"

definition renamed_audio :: jsval where
  "renamed_audio = JObj [(''name'', JStr ''clip.wav''), (''analysisResults'', JObj renamed_fields)]"

text \<open>An insert that succeeds with one row, and a service without its Supabase client.\<close>

definition sample_insert :: "jsval \<Rightarrow> insert_result" where
  "sample_insert record = InsertData [JObj [(''id'', JStr ''a1'')]]"

definition demo_database :: database where
  "demo_database = \<lparr>available = False, now = 1700000000000, insert_analysis = sample_insert\<rparr>"

text \<open>A database with the table of the setup script, empty so far.\<close>

definition schema_insert :: "jsval \<Rightarrow> insert_result" where
  "schema_insert record = fst (audio_analyses_insert ''a1'' [] record)"

definition schema_database :: database where
  "schema_database = \<lparr>available = True, now = 1700000000000, insert_analysis = schema_insert\<rparr>"

section \<open>The analysis result as its consumers read it\<close>

text \<open>
  The shape of a well-formed analysis result, with the field names the consumers bind
  to. The fields of a sound event and of a spectrum point carry a prefix here, since
  both have a \<open>time\<close> and a \<open>frequency\<close>. Numbers are reals.
\<close>

record SoundEvent =
  ev_time :: real
  ev_type :: string
  ev_frequency :: real
  ev_amplitude :: real
  ev_decibels :: real
  ev_confidence :: "real option"

record SpectrumPoint =
  sp_frequency :: real
  sp_magnitude :: real
  sp_time :: real

record AnalysisResult =
  duration :: real
  sampleRate :: real
  averageRMS :: real
  detectedSounds :: nat
  dominantFrequency :: real
  maxDecibels :: real
  soundEvents :: "SoundEvent list"
  frequencySpectrum :: "SpectrumPoint list"

text \<open>The interface \<open>AudioData\<close> of the components, without the opaque \<open>blob\<close>.\<close>

record AudioData =
  url :: string
  name :: string
  audio_duration :: real
  analysisResults :: "AnalysisResult option"

text \<open>\<open>x || d\<close> on a number: zero is falsy.\<close>

definition num_or :: "real \<Rightarrow> real \<Rightarrow> real" where
  "num_or x d = (if x \<noteq> 0 then x else d)"

text \<open>\<open>s || d\<close> on a string: the empty string is falsy.\<close>

definition str_or :: "string \<Rightarrow> string \<Rightarrow> string" where
  "str_or s d = (if s \<noteq> [] then s else d)"

section \<open>The PDF report (src/lib/pdf-generator.ts)\<close>

definition classifyFrequency :: "real \<Rightarrow> string" where
  "classifyFrequency freq =
     (if freq < 60 then ''Sub-Bass''
      else if freq < 250 then ''Bass''
      else if freq < 500 then ''Low-Mid''
      else if freq < 2000 then ''Mid (Voice)''
      else if freq < 4000 then ''High-Mid''
      else if freq < 8000 then ''Presence''
      else if freq < 16000 then ''Brilliance''
      else ''Ultra-High'')"

text \<open>
  \<open>generateBarChart\<close>: the numbers of full and of empty blocks of the bar.
  \<open>Math.round\<close> rounds halves up.
\<close>

definition math_round :: "real \<Rightarrow> int" where
  "math_round x = \<lfloor>x + 1 / 2\<rfloor>"

definition generateBarChart :: "real \<Rightarrow> nat \<times> nat" where
  "generateBarChart m =
     (let barLength = math_round (m * 20)
      in (nat (max 0 barLength), nat (max 0 (20 - barLength))))"

text \<open>
  \<open>Array.prototype.sort\<close> with a comparison function: a stable sort that puts \<open>a\<close>
  before \<open>b\<close> when the function is negative on them. It sorts the array in place and
  returns that same array.
\<close>

fun insert_by :: "('a \<Rightarrow> 'a \<Rightarrow> real) \<Rightarrow> 'a \<Rightarrow> 'a list \<Rightarrow> 'a list" where
  "insert_by cmp x [] = [x]"
| "insert_by cmp x (y # ys) = (if cmp x y \<le> 0 then x # y # ys else y # insert_by cmp x ys)"

definition array_sort :: "('a \<Rightarrow> 'a \<Rightarrow> real) \<Rightarrow> 'a list \<Rightarrow> 'a list" where
  "array_sort cmp xs = foldr (insert_by cmp) xs []"

text \<open>The comparison function of the report: by magnitude, largest first.\<close>

definition by_magnitude :: "SpectrumPoint \<Rightarrow> SpectrumPoint \<Rightarrow> real" where
  "by_magnitude a b = num_or (sp_magnitude b) 0 - num_or (sp_magnitude a) 0"

text \<open>The rows of the two tables built from the lists, before their cells are formatted.\<close>

record event_row =
  row_number :: nat
  row_event :: SoundEvent
  row_type :: string
  row_class :: string

record frequency_row =
  rank :: nat
  point :: SpectrumPoint
  bar :: "nat \<times> nat"
  point_class :: string

definition event_rows :: "SoundEvent list \<Rightarrow> event_row list" where
  "event_rows events =
     map (\<lambda>(index, event).
            \<lparr>row_number = index + 1, row_event = event,
             row_type = str_or (ev_type event) ''Unknown'',
             row_class = classifyFrequency (num_or (ev_frequency event) 440)\<rparr>)
         (enumerate 0 (take 15 events))"

definition frequency_rows :: "SpectrumPoint list \<Rightarrow> frequency_row list" where
  "frequency_rows in_order =
     map (\<lambda>(index, freq).
            \<lparr>rank = index + 1, point = freq,
             bar = generateBarChart (num_or (sp_magnitude freq) 0),
             point_class = classifyFrequency (num_or (sp_frequency freq) 440)\<rparr>)
         (enumerate 0 (take 10 in_order))"

text \<open>
  \<open>Array.from(new Set(xs))\<close>: the distinct elements in the order of their first
  occurrence.
\<close>

fun unique :: "'a list \<Rightarrow> 'a list" where
  "unique [] = []"
| "unique (x # xs) = x # filter (\<lambda>y. y \<noteq> x) (unique xs)"

text \<open>
  The report: the calls of the progress callback, the rows of the event table and of the
  frequency table, and the sound types named in the conclusions. The calls into jsPDF
  are taken to succeed, and the remaining text of the report (which reads the result's
  scalar fields and copies of its lists) is not part of the model.
\<close>

record report =
  progress :: "(nat \<times> string) list"
  events_table :: "event_row list"
  frequency_table :: "frequency_row list"
  sound_types :: "string list"

definition progress_calls :: "(nat \<times> string) list" where
  "progress_calls =
     [(5, ''Initializing PDF document...''),
      (10, ''Adding file information...''),
      (25, ''Processing sound detection data...''),
      (40, ''Generating sound events table...''),
      (60, ''Creating frequency analysis...''),
      (75, ''Adding analysis methodology...''),
      (90, ''Generating conclusions and summary...''),
      (95, ''Finalizing document...''),
      (100, ''Saving PDF report...'')]"

text \<open>
  \<open>generatePDFReport\<close>: the exception it throws, or the \<open>audioData\<close> object as the call
  leaves it together with the report. \<open>results\<close> is the object
  \<open>audioData.analysisResults\<close> itself, not a copy, so sorting
  \<open>results.frequencySpectrum\<close> writes to the caller's array.
\<close>

definition generatePDFReport :: "AudioData \<Rightarrow> js_error + (AudioData \<times> report)" where
  "generatePDFReport audioData =
     (case analysisResults audioData of
        None \<Rightarrow> Inl (Error ''No analysis results available for PDF generation'')
      | Some results \<Rightarrow>
          let events = soundEvents results;
              in_order = (if frequencySpectrum results \<noteq> []
                        then array_sort by_magnitude (frequencySpectrum results)
                        else frequencySpectrum results);
              results_after = results\<lparr>frequencySpectrum := in_order\<rparr>
          in Inr (audioData\<lparr>analysisResults := Some results_after\<rparr>,
                  \<lparr>progress = progress_calls,
                   events_table = (if events \<noteq> [] then event_rows events else []),
                   frequency_table = (if frequencySpectrum results \<noteq> [] then frequency_rows in_order else []),
                   sound_types = (if events \<noteq> []
                                  then unique (map (\<lambda>e. str_or (ev_type e) ''Unknown'') events)
                                  else [])\<rparr>))"

text \<open>An upload with two spectrum points in ascending frequency and one event.\<close>

definition tone_event :: SoundEvent where
  "tone_event = \<lparr>ev_time = 1 / 2, ev_type = ''Tone'', ev_frequency = 440, ev_amplitude = 4 / 5,
                  ev_decibels = - 6, ev_confidence = None\<rparr>"

definition low_point :: SpectrumPoint where
  "low_point = \<lparr>sp_frequency = 100, sp_magnitude = 1 / 5, sp_time = 0\<rparr>"

definition high_point :: SpectrumPoint where
  "high_point = \<lparr>sp_frequency = 200, sp_magnitude = 9 / 10, sp_time = 0\<rparr>"

definition two_point_result :: AnalysisResult where
  "two_point_result =
     \<lparr>duration = 2, sampleRate = 44100, averageRMS = 1 / 10, detectedSounds = 1,
      dominantFrequency = 200, maxDecibels = - 6,
      soundEvents = [tone_event], frequencySpectrum = [low_point, high_point]\<rparr>"

definition two_point_audio :: AudioData where
  "two_point_audio = \<lparr>url = ''blob:1'', name = ''clip.wav'', audio_duration = 2,
                       analysisResults = Some two_point_result\<rparr>"

text \<open>
  What a call of \<open>generatePDFReport\<close> leaves in the caller's \<open>audioData\<close> (the one
  exception of the model is thrown before anything is touched), and the two lists of an
  upload's analysis result.
\<close>

definition audio_after_report :: "AudioData \<Rightarrow> AudioData" where
  "audio_after_report audioData =
     (case generatePDFReport audioData of Inl e \<Rightarrow> audioData | Inr (after, rep) \<Rightarrow> after)"

definition spectrum_of :: "AudioData \<Rightarrow> SpectrumPoint list" where
  "spectrum_of audioData =
     (case analysisResults audioData of None \<Rightarrow> [] | Some r \<Rightarrow> frequencySpectrum r)"

definition events_of :: "AudioData \<Rightarrow> SoundEvent list" where
  "events_of audioData =
     (case analysisResults audioData of None \<Rightarrow> [] | Some r \<Rightarrow> soundEvents r)"

section \<open>The sonar view (src/app/components/sonar-view.tsx)\<close>

text \<open>
  The canvas as the click handler reads it (\<open>getBoundingClientRect\<close> and the canvas
  size) and the mouse position of a click.
\<close>

record canvas =
  rect_left :: real
  rect_top :: real
  canvas_width :: real
  canvas_height :: real

record mouse_click =
  clientX :: real
  clientY :: real

text \<open>\<open>Math.atan2(y, x)\<close> on real numbers.\<close>

definition atan2 :: "real \<Rightarrow> real \<Rightarrow> real" where
  "atan2 y x =
     (if 0 < x then arctan (y / x)
      else if x < 0 \<and> 0 \<le> y then arctan (y / x) + pi
      else if x < 0 then arctan (y / x) - pi
      else if 0 < y then pi / 2
      else if y < 0 then - (pi / 2)
      else 0)"

text \<open>
  \<open>Array.prototype.reduce\<close> without an initial value: the first element starts the
  accumulator, and an empty array is a TypeError.
\<close>

definition reduce1 :: "('a \<Rightarrow> 'a \<Rightarrow> 'a) \<Rightarrow> 'a list \<Rightarrow> js_error + 'a" where
  "reduce1 f xs = (case xs of [] \<Rightarrow> Inl TypeError_reduce | x # rest \<Rightarrow> Inr (foldl f x rest))"

text \<open>The callback of the nearest-event search.\<close>

definition nearer :: "real \<Rightarrow> real \<Rightarrow> SoundEvent \<Rightarrow> SoundEvent \<Rightarrow> SoundEvent" where
  "nearer t frequency nearest event =
     (let eventDistance = \<bar>ev_time event - t\<bar> + \<bar>ev_frequency event - frequency\<bar> / 100;
          nearestDistance = \<bar>ev_time nearest - t\<bar> + \<bar>ev_frequency nearest - frequency\<bar> / 100
      in if eventDistance < nearestDistance then event else nearest)"

text \<open>
  \<open>handleCanvas2DClick\<close>, installed when \<open>audioData.analysisResults\<close> is there: the
  exception it throws, or the selected event after the click (an event object is
  truthy, so the event found is always selected).
\<close>

definition handleCanvas2DClick ::
  "AnalysisResult \<Rightarrow> canvas \<Rightarrow> SoundEvent option \<Rightarrow> mouse_click \<Rightarrow> js_error + SoundEvent option" where
  "handleCanvas2DClick results canvas2D selectedEvent event =
     (let x = clientX event - rect_left canvas2D;
          y = clientY event - rect_top canvas2D;
          centerX = canvas_width canvas2D / 2;
          centerY = canvas_height canvas2D / 2;
          maxRadius = min (canvas_width canvas2D) (canvas_height canvas2D) / 2 - 40;
          dx = x - centerX;
          dy = y - centerY;
          distance = sqrt (dx * dx + dy * dy);
          angle = atan2 dy dx + pi / 2
      in if distance \<le> maxRadius then
           (let t = (angle / (2 * pi)) * duration results;
                frequency = (distance / maxRadius) * 2000
            in case reduce1 (nearer t frequency) (soundEvents results) of
                 Inl e \<Rightarrow> Inl e
               | Inr nearestEvent \<Rightarrow> Inr (Some nearestEvent))
         else Inr selectedEvent)"

text \<open>
  The card "Detection Statistics": the number shown as "Total Events" and the decibel
  range (\<open>None\<close> stands for "N/A"). \<open>Math.min\<close> and \<open>Math.max\<close> fold the list.
\<close>

record detection_statistics =
  total_events :: nat
  decibel_range :: "(real \<times> real) option"

definition detection_stats :: "AnalysisResult \<Rightarrow> detection_statistics" where
  "detection_stats results =
     \<lparr>total_events = detectedSounds results,
      decibel_range =
        (if length (soundEvents results) > 0
         then (case map ev_decibels (soundEvents results) of
                 [] \<Rightarrow> None
               | d # ds \<Rightarrow> Some (fold min ds d, fold max ds d))
         else None)\<rparr>"

text \<open>
  The blips that \<open>draw2DSonarView\<close> draws, one for each sound event in the order of the
  list: position, intensity and whether the blip gets a label.
\<close>

record blip =
  blip_x :: real
  blip_y :: real
  intensity :: real
  labelled :: bool

definition blips :: "AnalysisResult \<Rightarrow> canvas \<Rightarrow> blip list" where
  "blips results cv =
     (let centerX = canvas_width cv / 2;
          centerY = canvas_height cv / 2;
          maxRadius = min (canvas_width cv) (canvas_height cv) / 2 - 40
      in map (\<lambda>(index, event).
                let angle = (ev_time event / duration results) * 2 * pi - pi / 2;
                    distance = min ((ev_frequency event / 2000) * maxRadius) maxRadius
                in \<lparr>blip_x = centerX + cos angle * distance,
                    blip_y = centerY + sin angle * distance,
                    intensity = ev_amplitude event,
                    labelled = (ev_amplitude event > 6 / 10 \<or> index < 3)\<rparr>)
             (enumerate 0 (soundEvents results)))"

text \<open>A canvas of 400 by 400 pixels, a click on its centre, and a result without events.\<close>

definition square_canvas :: canvas where
  "square_canvas = \<lparr>rect_left = 0, rect_top = 0, canvas_width = 400, canvas_height = 400\<rparr>"

definition centre_click :: mouse_click where
  "centre_click = \<lparr>clientX = 200, clientY = 200\<rparr>"

definition silent_result :: AnalysisResult where
  "silent_result =
     \<lparr>duration = 2, sampleRate = 44100, averageRMS = 0, detectedSounds = 0,
      dominantFrequency = 0, maxDecibels = - 60, soundEvents = [], frequencySpectrum = []\<rparr>"

section \<open>The analysis pipeline (specification sections 3 to 7)\<close>

text \<open>
  Modelled from the spec: the analysis pipeline itself (the script
  \<open>scripts/mediapipe_audio_classifier.py\<close> that the route spawns, with its framing,
  feature extraction, event detection and aggregation) is not among the sources; only
  its consumers are. The definitions of this section follow sections 3 to 7 of the
  specification. The waveform: its samples and its sample rate in Hz; the duration is
  the sample count divided by the sample rate.
\<close>

record Waveform =
  samples :: "real list"
  rate :: real

text \<open>
  Modelled from the spec: the configuration of section 6, with the recognised options
  frameSize, hopSize, sensitivityFactor, minHoldTimeMs and referenceDb.
\<close>

record Config =
  frameSize :: int
  hopSize :: int
  sensitivityFactor :: real
  minHoldTimeMs :: real
  referenceDb :: real

text \<open>Modelled from the spec: the error taxonomy of section 7.\<close>

datatype pipeline_error = InvalidConfig | EmptyInputError | DecodeError

text \<open>
  Modelled from the spec: a frame of section 3, a slice of the waveform of fixed length
  with the offset of its first sample.
\<close>

record Frame =
  start :: nat
  frame_samples :: "real list"

text \<open>
  Modelled from the spec: an event candidate of section 4.4, with its onset time, the
  values of the strongest frame seen so far (amplitude, frequency and decibels of the
  same frame) and the time for which the signal has been under the threshold.
\<close>

record Candidate =
  onset :: real
  peakAmplitude :: real
  peakFrequency :: real
  peakDecibels :: real
  quietMs :: real

text \<open>
  Modelled from the spec: what the specification leaves to the implementer (section 9):
  the decibel floor, the smoothing factor of the moving average of the noise floor and
  its initial value, and the two pluggable stages that are not modelled here, the
  Spectral Transformer (from the sample rate and a frame's samples to its bins of
  frequency and magnitude) and the Classifier (from a closed candidate to a label and
  an optional confidence).
\<close>

record Tuning =
  floorDb :: real
  smoothing :: real
  initialNoiseFloor :: real
  transform :: "real \<Rightarrow> real list \<Rightarrow> (real \<times> real) list"
  classify :: "Candidate \<Rightarrow> string \<times> real option"

text \<open>
  Modelled from the spec: the zero padding of the Frame Segmenter (section 4.1), which
  fills a frame that runs short up to frameSize samples.
\<close>

definition zero_pad :: "nat \<Rightarrow> real list \<Rightarrow> real list" where
  "zero_pad n xs = xs @ replicate (n - length xs) 0"

text \<open>
  Modelled from the spec: the frames of the Frame Segmenter (section 4.1), from the
  offset \<open>i\<close> on. Frames start at the multiples of the hop size; the frame that
  reaches the end of the waveform is the final one, so the frames cover the waveform
  and only the final frame can run short. A waveform of exactly frameSize samples
  gives one frame (section 8).
\<close>

function frames_from :: "nat \<Rightarrow> nat \<Rightarrow> real list \<Rightarrow> nat \<Rightarrow> Frame list" where
  "frames_from len hop xs i =
     (if hop = 0 \<or> length xs \<le> i then []
      else \<lparr>start = i, frame_samples = zero_pad len (take len (drop i xs))\<rparr>
             # (if length xs \<le> i + len then [] else frames_from len hop xs (i + hop)))"
  by pat_completeness auto
termination
  by (relation "measure (\<lambda>(len, hop, xs, i). length xs - i)") auto

declare frames_from.simps [simp del]

text \<open>
  Modelled from the spec: the contract of the Frame Segmenter (section 4.1): it fails with
  InvalidConfig when the frame size or the hop size is not positive.
\<close>

definition segment :: "Config \<Rightarrow> Waveform \<Rightarrow> pipeline_error + Frame list" where
  "segment cfg w =
     (if frameSize cfg \<le> 0 \<or> hopSize cfg \<le> 0 then Inl InvalidConfig
      else Inr (frames_from (nat (frameSize cfg)) (nat (hopSize cfg)) (samples w) 0))"

text \<open>
  Modelled from the spec: the RMS energy of a frame (section 4.3), the root of the mean
  of the squared samples, and zero for an empty frame.
\<close>

definition rms :: "real list \<Rightarrow> real" where
  "rms xs = (if xs = [] then 0 else sqrt (sum_list (map (\<lambda>x. x * x) xs) / real (length xs)))"

text \<open>
  Modelled from the spec: the reference amplitude of the decibel level (section 4.3), given by
  the option referenceDb of the configuration.
\<close>

definition reference :: "Config \<Rightarrow> real" where
  "reference cfg = 10 powr (referenceDb cfg / 20)"

text \<open>
  Modelled from the spec: the decibel level of section 4.3, \<open>20 * log10(rms / reference)\<close>,
  with the floor value when the RMS is zero.
\<close>

definition decibels :: "Tuning \<Rightarrow> Config \<Rightarrow> real \<Rightarrow> real" where
  "decibels tun cfg r = (if r = 0 then floorDb tun else 20 * log 10 (r / reference cfg))"

text \<open>
  Modelled from the spec: the choice of the bin of largest magnitude (section 4.3), the first
  one among equals.
\<close>

definition stronger :: "SpectrumPoint \<Rightarrow> SpectrumPoint option \<Rightarrow> SpectrumPoint option" where
  "stronger p best =
     (case best of
        None \<Rightarrow> Some p
      | Some b \<Rightarrow> if sp_magnitude b < sp_magnitude p then Some p else Some b)"

text \<open>
  Modelled from the spec: the dominant frequency (sections 3 and 4.3), the frequency of the
  point of largest magnitude, and zero when there is no point.
\<close>

definition dominant :: "SpectrumPoint list \<Rightarrow> real" where
  "dominant ps = (case fold stronger ps None of None \<Rightarrow> 0 | Some p \<Rightarrow> sp_frequency p)"

text \<open>
  Modelled from the spec: the spectrum points of a frame (sections 3 and 4.2): the bins of
  the Spectral Transformer with the start offset of the frame in seconds.
\<close>

definition spectrum_points :: "Tuning \<Rightarrow> Waveform \<Rightarrow> Frame \<Rightarrow> SpectrumPoint list" where
  "spectrum_points tun w f =
     map (\<lambda>(fr, m). \<lparr>sp_frequency = fr, sp_magnitude = m, sp_time = real (start f) / rate w\<rparr>)
         (transform tun (rate w) (frame_samples f))"

text \<open>
  Modelled from the spec: the scalar features of a frame (section 4.3): its start time, RMS
  energy, decibel level and dominant frequency.
\<close>

record Features =
  ft_time :: real
  ft_rms :: real
  ft_decibels :: real
  ft_frequency :: real

text \<open>
  Modelled from the spec: the Feature Extractor of section 4.3 on one frame.
\<close>

definition extract_features :: "Tuning \<Rightarrow> Config \<Rightarrow> Waveform \<Rightarrow> Frame \<Rightarrow> Features" where
  "extract_features tun cfg w f =
     \<lparr>ft_time = real (start f) / rate w,
      ft_rms = rms (frame_samples f),
      ft_decibels = decibels tun cfg (rms (frame_samples f)),
      ft_frequency = dominant (spectrum_points tun w f)\<rparr>"

text \<open>
  The Event Detector of section 4.4 is a state machine over the frames with the states
  Idle and InEvent and a noise floor that is the exponential moving average of the RMS.
  A frame whose RMS exceeds the noise floor times the sensitivity factor opens a
  candidate or raises the peak of the open one; a candidate closes once the RMS has
  stayed under the threshold for the minimum hold time, and a candidate still open at
  the end of the waveform is emitted as it is.
\<close>

text \<open>
  Modelled from the spec: the two states of the Event Detector (section 4.4).
\<close>

datatype detector_state = Idle | InEvent Candidate

text \<open>
  Modelled from the spec: the state threaded through the frames by the Event Detector
  (sections 4.4 and 9): the state of the machine, the noise floor and the candidates
  emitted so far.
\<close>

record detector =
  state :: detector_state
  noiseFloor :: real
  emitted :: "Candidate list"

text \<open>
  Modelled from the spec: the candidate opened by the transition from Idle to InEvent
  (section 4.4).
\<close>

definition open_candidate :: "Features \<Rightarrow> Candidate" where
  "open_candidate f =
     \<lparr>onset = ft_time f, peakAmplitude = ft_rms f, peakFrequency = ft_frequency f,
      peakDecibels = ft_decibels f, quietMs = 0\<rparr>"

text \<open>
  Modelled from the spec: the peak values kept by an open candidate (section 4.4): those of
  the strongest frame seen so far.
\<close>

definition raise_peak :: "Candidate \<Rightarrow> Features \<Rightarrow> Candidate" where
  "raise_peak c f =
     (if peakAmplitude c < ft_rms f
      then c\<lparr>peakAmplitude := ft_rms f, peakFrequency := ft_frequency f,
             peakDecibels := ft_decibels f, quietMs := 0\<rparr>
      else c\<lparr>quietMs := 0\<rparr>)"

text \<open>
  Modelled from the spec: the time between two frames in milliseconds, by which the hold time
  of section 4.4 is counted.
\<close>

definition hop_ms :: "Config \<Rightarrow> Waveform \<Rightarrow> real" where
  "hop_ms cfg w = real_of_int (hopSize cfg) / rate w * 1000"

text \<open>
  Modelled from the spec: one transition of the Event Detector (section 4.4) on the features
  of a frame.
\<close>

definition detect_step :: "Tuning \<Rightarrow> Config \<Rightarrow> Waveform \<Rightarrow> detector \<Rightarrow> Features \<Rightarrow> detector" where
  "detect_step tun cfg w d f =
     (let threshold = noiseFloor d * sensitivityFactor cfg;
          floor_after = smoothing tun * ft_rms f + (1 - smoothing tun) * noiseFloor d
      in case state d of
           Idle \<Rightarrow>
             if threshold < ft_rms f
             then d\<lparr>state := InEvent (open_candidate f), noiseFloor := floor_after\<rparr>
             else d\<lparr>noiseFloor := floor_after\<rparr>
         | InEvent c \<Rightarrow>
             if threshold < ft_rms f
             then d\<lparr>state := InEvent (raise_peak c f), noiseFloor := floor_after\<rparr>
             else if minHoldTimeMs cfg \<le> quietMs c + hop_ms cfg w
             then d\<lparr>state := Idle, noiseFloor := floor_after, emitted := emitted d @ [c]\<rparr>
             else d\<lparr>state := InEvent (c\<lparr>quietMs := quietMs c + hop_ms cfg w\<rparr>),
                    noiseFloor := floor_after\<rparr>)"

text \<open>
  Modelled from the spec: the end of the waveform (section 4.4): an open candidate is closed
  and emitted with the values observed so far.
\<close>

definition flush :: "detector \<Rightarrow> Candidate list" where
  "flush d = (case state d of Idle \<Rightarrow> emitted d | InEvent c \<Rightarrow> emitted d @ [c])"

text \<open>
  Modelled from the spec: the Event Detector (section 4.4) over the frames in their order.
\<close>

definition detect :: "Tuning \<Rightarrow> Config \<Rightarrow> Waveform \<Rightarrow> Features list \<Rightarrow> Candidate list" where
  "detect tun cfg w fs =
     flush (foldl (detect_step tun cfg w)
              \<lparr>state = Idle, noiseFloor = initialNoiseFloor tun, emitted = []\<rparr> fs)"

text \<open>
  Modelled from the spec: the sound event that a closed candidate becomes, labelled by
  the Classifier of section 4.5.
\<close>

definition classified :: "Tuning \<Rightarrow> Candidate \<Rightarrow> SoundEvent" where
  "classified tun c =
     \<lparr>ev_time = onset c, ev_type = fst (classify tun c), ev_frequency = peakFrequency c,
      ev_amplitude = peakAmplitude c, ev_decibels = peakDecibels c,
      ev_confidence = snd (classify tun c)\<rparr>"

text \<open>
  Modelled from the spec: the mean of the Aggregator (section 4.6), zero for no value.
  By the invariants of section 3 the event count is the number of sound events,
  maxDecibels their largest decibel value (the floor when there is none),
  dominantFrequency the frequency of the spectrum point of largest magnitude, and
  averageRMS the mean of the frames' RMS.
\<close>

definition mean :: "real list \<Rightarrow> real" where
  "mean xs = (if xs = [] then 0 else sum_list xs / real (length xs))"

text \<open>
  Modelled from the spec: the Aggregator of section 4.6, the summary record of section 3.
\<close>

definition aggregate ::
  "Tuning \<Rightarrow> Waveform \<Rightarrow> Features list \<Rightarrow> SoundEvent list \<Rightarrow> SpectrumPoint list \<Rightarrow> AnalysisResult" where
  "aggregate tun w fs events spectrum =
     \<lparr>duration = real (length (samples w)) / rate w,
      sampleRate = rate w,
      averageRMS = mean (map ft_rms fs),
      detectedSounds = length events,
      dominantFrequency = dominant spectrum,
      maxDecibels = (case map ev_decibels events of [] \<Rightarrow> floorDb tun | d # ds \<Rightarrow> fold max ds d),
      soundEvents = events,
      frequencySpectrum = spectrum\<rparr>"

text \<open>
  Modelled from the spec: the pipeline of section 2, the stages in their order. A bad
  configuration and an empty waveform are rejected before any processing (section 7).
\<close>

definition analyze :: "Tuning \<Rightarrow> Config \<Rightarrow> Waveform \<Rightarrow> pipeline_error + AnalysisResult" where
  "analyze tun cfg w =
     (case segment cfg w of
        Inl e \<Rightarrow> Inl e
      | Inr frames \<Rightarrow>
          if samples w = [] then Inl EmptyInputError
          else
            let fs = map (extract_features tun cfg w) frames;
                spectrum = concat (map (spectrum_points tun w) frames);
                events = map (classified tun) (detect tun cfg w fs)
            in Inr (aggregate tun w fs events spectrum))"

text \<open>
  Modelled from the spec: an admissible configuration. Section 4.1 asks for positive
  frame and hop sizes and a hop no longer than a frame; a threshold ratio and a hold
  time are not negative.
\<close>

definition valid_config :: "Config \<Rightarrow> bool" where
  "valid_config cfg =
     (0 < frameSize cfg \<and> 0 < hopSize cfg \<and> hopSize cfg \<le> frameSize cfg
      \<and> 0 \<le> sensitivityFactor cfg \<and> 0 \<le> minHoldTimeMs cfg)"

text \<open>
  Modelled from the spec: an admissible choice of the constants left open (section 9): a
  noise floor is not negative, the smoothing factor lies between 0 and 1.
\<close>

definition valid_tuning :: "Tuning \<Rightarrow> bool" where
  "valid_tuning tun = (0 \<le> initialNoiseFloor tun \<and> 0 \<le> smoothing tun \<and> smoothing tun \<le> 1)"

text \<open>
  Modelled from the spec: a silent waveform of positive duration (section 8): at least one
  sample, a positive sample rate, all samples zero.
\<close>

definition silent :: "Waveform \<Rightarrow> bool" where
  "silent w = (samples w \<noteq> [] \<and> 0 < rate w \<and> list_all (\<lambda>x. x = 0) (samples w))"

text \<open>
  A configuration without overlap, a choice of the open constants (with one bin for
  each frame and a classifier that knows one label), and a silent waveform of four
  samples.
\<close>

definition sample_config :: Config where
  "sample_config = \<lparr>frameSize = 2, hopSize = 2, sensitivityFactor = 2, minHoldTimeMs = 50,
                     referenceDb = 0\<rparr>"

definition one_bin :: "real \<Rightarrow> real list \<Rightarrow> (real \<times> real) list" where
  "one_bin r xs = [(0, 0)]"

definition always_unknown :: "Candidate \<Rightarrow> string \<times> real option" where
  "always_unknown c = (''Unknown'', None)"

definition sample_tuning :: Tuning where
  "sample_tuning = \<lparr>floorDb = - 60, smoothing = 1 / 10, initialNoiseFloor = 1 / 100,
                     transform = one_bin, classify = always_unknown\<rparr>"

definition silence :: Waveform where
  "silence = \<lparr>samples = [0, 0, 0, 0], rate = 8000\<rparr>"

definition five_samples :: Waveform where
  "five_samples = \<lparr>samples = [1 / 2, 1 / 4, 0, - (1 / 4), 1 / 8], rate = 8000\<rparr>"

definition burst :: Waveform where
  "burst = \<lparr>samples = [1, 1, 0, 0], rate = 8000\<rparr>"

text \<open>The result of the pipeline on the burst: one event, opened by the first frame.\<close>

definition burst_event :: SoundEvent where
  "burst_event = \<lparr>ev_time = 0, ev_type = ''Unknown'', ev_frequency = 0, ev_amplitude = 1,
                   ev_decibels = 0, ev_confidence = None\<rparr>"

definition burst_result :: AnalysisResult where
  "burst_result =
     \<lparr>duration = 1 / 2000, sampleRate = 8000, averageRMS = 1 / 2, detectedSounds = 1,
      dominantFrequency = 0, maxDecibels = 0, soundEvents = [burst_event],
      frequencySpectrum = [\<lparr>sp_frequency = 0, sp_magnitude = 0, sp_time = 0\<rparr>,
                           \<lparr>sp_frequency = 0, sp_magnitude = 0, sp_time = 1 / 4000\<rparr>]\<rparr>"

section \<open>Properties of the classify-audio route\<close>

lemma run_events_append: "run_events rt s (es @ fs) = run_events rt (run_events rt s es) fs"
  by (simp add: run_events_def)

lemma run_events_Cons: "run_events rt s (e # es) = run_events rt (on_event rt s e) es"
  by (simp add: run_events_def)

lemma run_events_Nil: "run_events rt s [] = s"
  by (simp add: run_events_def)

lemma run_events_output:
  "list_all is_output es \<Longrightarrow>
     run_events rt s es = s\<lparr>stdout := stdout s @ stdout_of es, stderr := stderr s @ stderr_of es\<rparr>"
proof (induction es arbitrary: s)
  case Nil
  then show ?case by (simp add: run_events_Nil)
next
  case (Cons e es)
  then show ?case by (cases e) (simp_all add: run_events_Cons)
qed

lemma on_event_settled: "reply s = Some r \<Longrightarrow> reply (on_event rt s e) = Some r"
  by (cases e) (simp_all add: resolve_def split: sum.splits)

lemma run_events_settled: "reply s = Some r \<Longrightarrow> reply (run_events rt s es) = Some r"
proof (induction es arbitrary: s)
  case Nil
  then show ?case by (simp add: run_events_Nil)
next
  case (Cons e es)
  then show ?case by (simp add: run_events_Cons on_event_settled)
qed

lemma child_spawned:
  "child (POST rt req es) \<noteq> None \<Longrightarrow>
     answer (POST rt req es) =
       reply (run_events rt \<lparr>stdout = [], stderr = [], reply = None, killed = False\<rparr> es)"
  by (auto simp: POST_def Let_def split: sum.splits if_splits)

lemma child_independent: "child (POST rt req es) = child (POST rt req es')"
  by (auto simp: POST_def Let_def split: sum.splits if_splits)

text \<open>
  Claim C3. When the classifier process has been spawned and, up to the moment the 60
  second timer fires, has only produced output (no \<open>close\<close> and no \<open>error\<close> event),
  the handler answers with status 408 and the error "Classification timeout". The
  answer given when the process closes with exit code 0 and its output does not parse
  is another one: status 500 and the error "Failed to parse classification results".
\<close>

theorem timeout_answer:
  assumes "child (POST rt req (pre @ TimerFired # post)) \<noteq> None"
    and "list_all is_output pre"
  shows "answer (POST rt req (pre @ TimerFired # post)) = Some timeout_response
       \<and> status timeout_response = 408
       \<and> read_prop (body timeout_response) ''error'' = Inr (JStr ''Classification timeout'')
       \<and> (\<forall>m. json_parse rt (trim (stdout_of pre)) = Inl m \<longrightarrow>
             answer (POST rt req (pre @ ProcClose (Some 0) # post))
               = Some (parse_failure_response m (stdout_of pre) (stderr_of pre))
           \<and> status (parse_failure_response m (stdout_of pre) (stderr_of pre)) = 500
           \<and> read_prop (body (parse_failure_response m (stdout_of pre) (stderr_of pre))) ''error''
               = Inr (JStr ''Failed to parse classification results'')
           \<and> parse_failure_response m (stdout_of pre) (stderr_of pre) \<noteq> timeout_response)"
proof -
  let ?s0 = "\<lparr>stdout = [], stderr = [], reply = None, killed = False\<rparr>"
  have pre: "run_events rt ?s0 pre = \<lparr>stdout = stdout_of pre, stderr = stderr_of pre, reply = None, killed = False\<rparr>"
    using run_events_output [OF assms(2), of rt ?s0] by simp
  have t: "reply (run_events rt ?s0 (pre @ TimerFired # post)) = Some timeout_response"
    by (simp add: run_events_append run_events_Cons pre resolve_def run_events_settled)
  have c: "child (POST rt req (pre @ ProcClose (Some 0) # post)) \<noteq> None"
    using assms(1) child_independent by metis
  have p: "reply (run_events rt ?s0 (pre @ ProcClose (Some 0) # post))
             = Some (parse_failure_response m (stdout_of pre) (stderr_of pre))"
    if "json_parse rt (trim (stdout_of pre)) = Inl m" for m
    using that by (simp add: run_events_append run_events_Cons pre resolve_def run_events_settled)
  show ?thesis
    using t p child_spawned [OF assms(1)] child_spawned [OF c]
    by (simp add: timeout_response_def parse_failure_response_def lookup_field_def)
qed

theorem timeout_answer_witness:
  "child (POST sample_runtime (Inr (JObj [(''audioData'', JStr ''UklGRg=='')]))
            ([StdoutData ''partial'', StderrData ''loading model''] @ TimerFired # [ProcClose None])) \<noteq> None
   \<and> list_all is_output [StdoutData ''partial'', StderrData ''loading model'']
   \<and> answer (POST sample_runtime (Inr (JObj [(''audioData'', JStr ''UklGRg=='')]))
            ([StdoutData ''partial'', StderrData ''loading model''] @ TimerFired # [ProcClose None]))
       = Some timeout_response
   \<and> json_parse sample_runtime (trim (stdout_of [StdoutData ''partial'', StderrData ''loading model'']))
       = Inl ''Unexpected token''
   \<and> answer (POST sample_runtime (Inr (JObj [(''audioData'', JStr ''UklGRg=='')]))
            ([StdoutData ''partial'', StderrData ''loading model''] @ ProcClose (Some 0) # [ProcClose None]))
       = Some (parse_failure_response ''Unexpected token'' ''partial'' ''loading model'')"
proof -
  let ?req = "Inr (JObj [(''audioData'', JStr ''UklGRg=='')])"
  let ?pre = "[StdoutData ''partial'', StderrData ''loading model'']"
  have h1: "child (POST sample_runtime ?req (?pre @ TimerFired # [ProcClose None])) \<noteq> None"
    by (simp add: POST_def Let_def lookup_field_def)
  have h2: "list_all is_output ?pre"
    by simp
  have h3: "json_parse sample_runtime (trim (stdout_of ?pre)) = Inl ''Unexpected token''"
    by (simp add: sample_runtime_def sample_parse_def trim_def js_whitespace_def js_whitespace2_def
        js_whitespace3_def)
  have o: "stdout_of ?pre = ''partial''" "stderr_of ?pre = ''loading model''"
    by simp_all
  note t = timeout_answer [OF h1 h2]
  from t have a: "answer (POST sample_runtime ?req (?pre @ TimerFired # [ProcClose None])) = Some timeout_response"
    by (rule conjunct1)
  from t h3 have b: "answer (POST sample_runtime ?req (?pre @ ProcClose (Some 0) # [ProcClose None]))
       = Some (parse_failure_response ''Unexpected token'' (stdout_of ?pre) (stderr_of ?pre))"
    by blast
  show ?thesis
    using h1 h2 h3 a b unfolding o by blast
qed

text \<open>
  A request body that is the JSON value \<open>null\<close> has no \<open>audioData\<close> field, but the
  destructuring of \<open>null\<close> throws, and the handler's \<open>catch\<close> answers with status 500.
\<close>

theorem null_body_counterexample:
  "\<not> has_field JNull ''audioData''
   \<and> answer (POST sample_runtime (Inr JNull) []) \<noteq> Some no_audio_response
   \<and> answer (POST sample_runtime (Inr JNull) [])
       = Some (Response 500 (JObj [(''error'', JStr ''Internal server error''),
            (''details'', JStr ''Cannot read properties of null (reading audioData)'')]))"
  by (simp add: has_field_def POST_def no_audio_response_def internal_error_response_def
      sample_runtime_def sample_read_error_text_def)

lemma no_field_undefined:
  "b \<noteq> JNull \<Longrightarrow> b \<noteq> JUndefined \<Longrightarrow> \<not> has_field b k \<Longrightarrow> read_prop b k = Inr JUndefined"
  by (cases b) (force simp: has_field_def lookup_field_def split: option.splits dest: map_of_SomeD)+

lemma not_null_reads: "b \<noteq> JNull \<Longrightarrow> b \<noteq> JUndefined \<Longrightarrow> \<exists>v. read_prop b k = Inr v"
  by (cases b) auto

text \<open>
  Claim C4, amended. For every request whose JSON body is not \<open>null\<close> and has no
  \<open>audioData\<close> field, the handler answers with status 400 and the error "No audio data
  provided", and no classifier process is spawned; for the body \<open>null\<close> no process is
  spawned either.
\<close>

theorem missing_audio_rejected:
  assumes "b \<noteq> JNull" and "b \<noteq> JUndefined" and "\<not> has_field b ''audioData''"
  shows "answer (POST rt (Inr b) events) = Some no_audio_response
       \<and> status no_audio_response = 400
       \<and> read_prop (body no_audio_response) ''error'' = Inr (JStr ''No audio data provided'')
       \<and> child (POST rt (Inr b) events) = None
       \<and> child (POST rt (Inr JNull) events) = None"
proof -
  obtain f where f: "read_prop b ''filename'' = Inr f"
    using not_null_reads [OF assms(1,2)] by blast
  have a: "read_prop b ''audioData'' = Inr JUndefined"
    using assms by (rule no_field_undefined)
  show ?thesis
    by (simp add: POST_def a f no_audio_response_def lookup_field_def)
qed

theorem missing_audio_rejected_witness:
  "answer (POST sample_runtime (Inr (JObj [(''filename'', JStr ''a.wav'')])) [ProcClose (Some 0)])
     = Some no_audio_response
   \<and> child (POST sample_runtime (Inr (JObj [(''filename'', JStr ''a.wav'')])) [ProcClose (Some 0)]) = None"
proof -
  let ?b = "JObj [(''filename'', JStr ''a.wav'')]"
  have h1: "?b \<noteq> JNull" and h2: "?b \<noteq> JUndefined" and h3: "\<not> has_field ?b ''audioData''"
    by (simp_all add: has_field_def)
  from missing_audio_rejected [OF h1 h2 h3, of sample_runtime "[ProcClose (Some 0)]"]
  show ?thesis by blast
qed

section \<open>Properties of the database service\<close>

lemma digits_example: "number_to_string 1700000000000 = ''1700000000000''"
  by (simp add: number_to_string_def digits.simps digit_char_def)

lemma result_field_object:
  "read_prop audioData ''analysisResults'' = Inr (JObj fs) \<Longrightarrow>
     result_field audioData k = Inr (lookup_field fs k)"
  by (simp add: result_field_def and_then_def)

lemma absent_field: "\<not> has_field (JObj fs) k \<Longrightarrow> lookup_field fs k = JUndefined"
  by (force simp: has_field_def lookup_field_def split: option.splits dest: map_of_SomeD)

lemma analysisRecord_object:
  assumes "read_prop audioData ''name'' = Inr filename"
    and "read_prop audioData ''analysisResults'' = Inr (JObj fs)"
  shows "analysisRecord audioData =
           Inr (JObj [(''filename'', filename),
                      (''duration'', lookup_field fs ''duration''),
                      (''sample_rate'', lookup_field fs ''sampleRate''),
                      (''average_rms'', lookup_field fs ''averageRMS''),
                      (''detected_sounds'', lookup_field fs ''detectedSounds''),
                      (''dominant_frequency'', lookup_field fs ''dominantFrequency''),
                      (''max_decibels'', lookup_field fs ''maxDecibels''),
                      (''sound_events'', js_or (lookup_field fs ''soundEvents'') (JArr [])),
                      (''frequency_spectrum'', js_or (lookup_field fs ''frequencySpectrum'') (JArr [])),
                      (''analysis_results'', JObj fs)])"
  unfolding analysisRecord_def result_field_object [OF assms(2)] assms
  by (simp add: and_then_def)

lemma renamed_audio_reads:
  "read_prop renamed_audio ''name'' = Inr (JStr ''clip.wav'')"
  "read_prop renamed_audio ''analysisResults'' = Inr (JObj renamed_fields)"
  by (simp_all add: renamed_audio_def lookup_field_def)

lemma renamed_fields_names: "list_all (\<lambda>k. \<not> has_field (JObj renamed_fields) k) result_names"
  by (simp add: result_names_def has_field_def renamed_fields_def)

lemma refusal_is_no_missing_relation:
  "\<not> sublist missing_relation_text (not_null_text ''filename'')"
  "\<not> sublist missing_relation_text (not_null_text ''duration'')"
  by (simp_all add: missing_relation_text_def not_null_text_def sublist_Cons_right)

lemma renamed_record_refused:
  "audio_analyses_insert new_id table
     (JObj [(''filename'', filename),
            (''duration'', JUndefined),
            (''sample_rate'', JUndefined),
            (''average_rms'', JUndefined),
            (''detected_sounds'', JUndefined),
            (''dominant_frequency'', JUndefined),
            (''max_decibels'', JUndefined),
            (''sound_events'', JArr []),
            (''frequency_spectrum'', JArr []),
            (''analysis_results'', JObj fs)])
     = (InsertError (not_null_text (if filename = JUndefined \<or> filename = JNull
                                    then ''filename'' else ''duration'')), table)"
  by (cases filename)
    (simp_all add: audio_analyses_insert_def not_null_columns_def column_value_def
      lookup_field_def column_default_def)

lemma refusal_outcome:
  "insert_outcome (InsertError (not_null_text (if filename = JUndefined \<or> filename = JNull
                                                then ''filename'' else ''duration''))) = Inr JNull"
  by (simp add: insert_outcome_def refusal_is_no_missing_relation)

lemma renamed_record:
  assumes "read_prop audioData ''name'' = Inr filename"
    and "read_prop audioData ''analysisResults'' = Inr (JObj fs)"
    and "list_all (\<lambda>k. \<not> has_field (JObj fs) k) result_names"
  shows "analysisRecord audioData =
           Inr (JObj [(''filename'', filename),
                      (''duration'', JUndefined),
                      (''sample_rate'', JUndefined),
                      (''average_rms'', JUndefined),
                      (''detected_sounds'', JUndefined),
                      (''dominant_frequency'', JUndefined),
                      (''max_decibels'', JUndefined),
                      (''sound_events'', JArr []),
                      (''frequency_spectrum'', JArr []),
                      (''analysis_results'', JObj fs)])"
  unfolding analysisRecord_object [OF assms(1,2)]
  using assms(3) by (simp add: result_names_def absent_field js_or_def)

lemma renamed_result_refused:
  assumes "available db"
    and "read_prop audioData ''name'' = Inr filename"
    and "read_prop audioData ''analysisResults'' = Inr (JObj fs)"
    and "list_all (\<lambda>k. \<not> has_field (JObj fs) k) result_names"
    and "insert_analysis db = (\<lambda>record. fst (audio_analyses_insert new_id table record))"
  shows "saveAnalysis db audioData = (0, Inr JNull)"
proof -
  have s: "saveAnalysis db audioData =
             (0, and_then (analysisRecord audioData) (\<lambda>r. insert_outcome (insert_analysis db r)))"
    using assms(1) by (simp add: saveAnalysis_def)
  show ?thesis
    unfolding s renamed_record [OF assms(2,3,4)] assms(5)
    by (simp add: and_then_def renamed_record_refused refusal_outcome)
qed

lemma schema_database_insert:
  "available schema_database"
  "insert_analysis schema_database = (\<lambda>record. fst (audio_analyses_insert ''a1'' [] record))"
  by (simp_all add: schema_database_def schema_insert_def fun_eq_iff)

text \<open>
  An analysis result that carries its data under other names is not stored at all, and
  not all of its values are undefined. The record handed to the insert has the empty
  array in its two list fields, the table \<open>audio_analyses\<close> refuses it for the NULL in
  the column \<open>duration\<close> and stays empty, and \<open>saveAnalysis\<close> returns \<open>null\<close>.
\<close>

theorem renamed_result_counterexample:
  "list_all (\<lambda>k. \<not> has_field (JObj renamed_fields) k) result_names
   \<and> read_prop renamed_audio ''analysisResults'' = Inr (JObj renamed_fields)
   \<and> and_then (analysisRecord renamed_audio) (\<lambda>r. read_prop r ''sound_events'') = Inr (JArr [])
   \<and> and_then (analysisRecord renamed_audio) (\<lambda>r. read_prop r ''sound_events'') \<noteq> Inr JUndefined
   \<and> and_then (analysisRecord renamed_audio) (\<lambda>r. read_prop r ''frequency_spectrum'') = Inr (JArr [])
   \<and> and_then (analysisRecord renamed_audio) (\<lambda>r. Inr (audio_analyses_insert ''a1'' [] r))
       = Inr (InsertError (not_null_text ''duration''), [])
   \<and> saveAnalysis schema_database renamed_audio = (0, Inr JNull)"
proof -
  note rec = renamed_record [OF renamed_audio_reads renamed_fields_names]
  have r: "and_then (analysisRecord renamed_audio) (\<lambda>r. read_prop r ''sound_events'') = Inr (JArr [])"
    "and_then (analysisRecord renamed_audio) (\<lambda>r. read_prop r ''frequency_spectrum'') = Inr (JArr [])"
    unfolding rec by (simp_all add: and_then_def lookup_field_def)
  have t: "and_then (analysisRecord renamed_audio) (\<lambda>r. Inr (audio_analyses_insert ''a1'' [] r))
       = Inr (InsertError (not_null_text ''duration''), [])"
    unfolding rec by (simp add: and_then_def renamed_record_refused)
  have n: "saveAnalysis schema_database renamed_audio = (0, Inr JNull)"
    using schema_database_insert(1) renamed_audio_reads renamed_fields_names schema_database_insert(2)
    by (rule renamed_result_refused)
  show ?thesis
    unfolding r t n using renamed_fields_names renamed_audio_reads(2) by simp
qed

text \<open>
  Claim C5, amended. When the database is available, the record that \<open>saveAnalysis\<close>
  hands to the insert is built from the upload's name, from the values bound in the
  analysis result to exactly the eight names duration, sampleRate, averageRMS,
  detectedSounds, dominantFrequency, maxDecibels, soundEvents and frequencySpectrum, and
  from the result as a whole. For a result that carries its data under other names the
  record handed over has its six scalar fields undefined and its two list fields empty;
  the table \<open>audio_analyses\<close>, whose columns are NOT NULL, refuses that record, so that
  nothing is stored and \<open>saveAnalysis\<close> returns \<open>null\<close>.
\<close>

theorem saveAnalysis_binds_names:
  assumes "available db"
    and "read_prop audioData ''name'' = Inr filename"
    and "read_prop audioData ''analysisResults'' = Inr (JObj fs)"
  shows "saveAnalysis db audioData =
           (0, insert_outcome (insert_analysis db
              (JObj [(''filename'', filename),
                     (''duration'', lookup_field fs ''duration''),
                     (''sample_rate'', lookup_field fs ''sampleRate''),
                     (''average_rms'', lookup_field fs ''averageRMS''),
                     (''detected_sounds'', lookup_field fs ''detectedSounds''),
                     (''dominant_frequency'', lookup_field fs ''dominantFrequency''),
                     (''max_decibels'', lookup_field fs ''maxDecibels''),
                     (''sound_events'', js_or (lookup_field fs ''soundEvents'') (JArr [])),
                     (''frequency_spectrum'', js_or (lookup_field fs ''frequencySpectrum'') (JArr [])),
                     (''analysis_results'', JObj fs)])))
       \<and> (list_all (\<lambda>k. \<not> has_field (JObj fs) k) result_names \<longrightarrow>
            saveAnalysis db audioData =
              (0, insert_outcome (insert_analysis db
                 (JObj [(''filename'', filename),
                        (''duration'', JUndefined),
                        (''sample_rate'', JUndefined),
                        (''average_rms'', JUndefined),
                        (''detected_sounds'', JUndefined),
                        (''dominant_frequency'', JUndefined),
                        (''max_decibels'', JUndefined),
                        (''sound_events'', JArr []),
                        (''frequency_spectrum'', JArr []),
                        (''analysis_results'', JObj fs)])))
            \<and> (\<forall>new_id table.
                  snd (audio_analyses_insert new_id table
                     (JObj [(''filename'', filename),
                            (''duration'', JUndefined),
                            (''sample_rate'', JUndefined),
                            (''average_rms'', JUndefined),
                            (''detected_sounds'', JUndefined),
                            (''dominant_frequency'', JUndefined),
                            (''max_decibels'', JUndefined),
                            (''sound_events'', JArr []),
                            (''frequency_spectrum'', JArr []),
                            (''analysis_results'', JObj fs)])) = table
                  \<and> (insert_analysis db = (\<lambda>record. fst (audio_analyses_insert new_id table record))
                       \<longrightarrow> saveAnalysis db audioData = (0, Inr JNull))))"
proof -
  have s: "saveAnalysis db audioData =
             (0, and_then (analysisRecord audioData) (\<lambda>r. insert_outcome (insert_analysis db r)))"
    using assms(1) by (simp add: saveAnalysis_def)
  have a: "saveAnalysis db audioData =
           (0, insert_outcome (insert_analysis db
              (JObj [(''filename'', filename),
                     (''duration'', lookup_field fs ''duration''),
                     (''sample_rate'', lookup_field fs ''sampleRate''),
                     (''average_rms'', lookup_field fs ''averageRMS''),
                     (''detected_sounds'', lookup_field fs ''detectedSounds''),
                     (''dominant_frequency'', lookup_field fs ''dominantFrequency''),
                     (''max_decibels'', lookup_field fs ''maxDecibels''),
                     (''sound_events'', js_or (lookup_field fs ''soundEvents'') (JArr [])),
                     (''frequency_spectrum'', js_or (lookup_field fs ''frequencySpectrum'') (JArr [])),
                     (''analysis_results'', JObj fs)])))"
    unfolding s analysisRecord_object [OF assms(2,3)] by (simp add: and_then_def)
  have b: "saveAnalysis db audioData =
              (0, insert_outcome (insert_analysis db
                 (JObj [(''filename'', filename),
                        (''duration'', JUndefined),
                        (''sample_rate'', JUndefined),
                        (''average_rms'', JUndefined),
                        (''detected_sounds'', JUndefined),
                        (''dominant_frequency'', JUndefined),
                        (''max_decibels'', JUndefined),
                        (''sound_events'', JArr []),
                        (''frequency_spectrum'', JArr []),
                        (''analysis_results'', JObj fs)])))"
    if "list_all (\<lambda>k. \<not> has_field (JObj fs) k) result_names"
    unfolding s renamed_record [OF assms(2,3) that] by (simp add: and_then_def)
  have c: "saveAnalysis db audioData = (0, Inr JNull)"
    if "list_all (\<lambda>k. \<not> has_field (JObj fs) k) result_names"
      and "insert_analysis db = (\<lambda>record. fst (audio_analyses_insert new_id table record))"
    for new_id table
    using assms that by (rule renamed_result_refused)
  have d: "snd (audio_analyses_insert new_id table
                     (JObj [(''filename'', filename),
                            (''duration'', JUndefined),
                            (''sample_rate'', JUndefined),
                            (''average_rms'', JUndefined),
                            (''detected_sounds'', JUndefined),
                            (''dominant_frequency'', JUndefined),
                            (''max_decibels'', JUndefined),
                            (''sound_events'', JArr []),
                            (''frequency_spectrum'', JArr []),
                            (''analysis_results'', JObj fs)])) = table"
    for new_id table
    by (simp only: renamed_record_refused snd_conv)
  show ?thesis
    apply (intro conjI impI allI)
       apply (rule a)
      apply (erule b)
     apply (rule d)
    apply (erule c, assumption)
    done
qed

theorem saveAnalysis_binds_names_witness:
  "available schema_database
   \<and> list_all (\<lambda>k. \<not> has_field (JObj renamed_fields) k) result_names
   \<and> insert_analysis schema_database = (\<lambda>record. fst (audio_analyses_insert ''a1'' [] record))
   \<and> saveAnalysis schema_database renamed_audio =
       (0, insert_outcome (insert_analysis schema_database
          (JObj [(''filename'', JStr ''clip.wav''),
                 (''duration'', JUndefined),
                 (''sample_rate'', JUndefined),
                 (''average_rms'', JUndefined),
                 (''detected_sounds'', JUndefined),
                 (''dominant_frequency'', JUndefined),
                 (''max_decibels'', JUndefined),
                 (''sound_events'', JArr []),
                 (''frequency_spectrum'', JArr []),
                 (''analysis_results'', JObj renamed_fields)])))
   \<and> saveAnalysis schema_database renamed_audio = (0, Inr JNull)"
proof -
  note t = mp [OF conjunct2 [OF saveAnalysis_binds_names [OF schema_database_insert(1) renamed_audio_reads]]
      renamed_fields_names]
  have r: "saveAnalysis schema_database renamed_audio =
       (0, insert_outcome (insert_analysis schema_database
          (JObj [(''filename'', JStr ''clip.wav''),
                 (''duration'', JUndefined),
                 (''sample_rate'', JUndefined),
                 (''average_rms'', JUndefined),
                 (''detected_sounds'', JUndefined),
                 (''dominant_frequency'', JUndefined),
                 (''max_decibels'', JUndefined),
                 (''sound_events'', JArr []),
                 (''frequency_spectrum'', JArr []),
                 (''analysis_results'', JObj renamed_fields)])))"
    by (rule conjunct1 [OF t])
  have "insert_analysis schema_database = (\<lambda>record. fst (audio_analyses_insert ''a1'' [] record))
          \<longrightarrow> saveAnalysis schema_database renamed_audio = (0, Inr JNull)"
    using conjunct2 [OF t] by blast
  then have n: "saveAnalysis schema_database renamed_audio = (0, Inr JNull)"
    using schema_database_insert(2) by (rule mp)
  from schema_database_insert(1) renamed_fields_names schema_database_insert(2) r n
  show ?thesis
    by (intro conjI)
qed

text \<open>
  Claim C10. When the Supabase client is not available, \<open>saveAnalysis\<close> settles, after
  its delay of 1000 milliseconds, with the string "demo-id-" followed by the timestamp,
  whatever \<open>audioData\<close> is. The value is not \<open>null\<close>, passes the caller's test
  \<open>if (analysisId)\<close>, and no insert takes part in it.
\<close>

theorem saveAnalysis_demo:
  assumes "\<not> available db"
  shows "saveAnalysis db audioData = (1000, Inr (JStr (''demo-id-'' @ number_to_string (now db))))
       \<and> JStr (''demo-id-'' @ number_to_string (now db)) \<noteq> JNull
       \<and> truthy (JStr (''demo-id-'' @ number_to_string (now db)))
       \<and> saveAnalysis (db\<lparr>insert_analysis := f\<rparr>) audioData = saveAnalysis db audioData"
  using assms by (simp add: saveAnalysis_def)

theorem saveAnalysis_demo_witness:
  "\<not> available demo_database
   \<and> saveAnalysis demo_database JNull = (1000, Inr (JStr ''demo-id-1700000000000''))"
proof -
  have h: "\<not> available demo_database"
    by (simp add: demo_database_def)
  have n: "now demo_database = 1700000000000"
    by (simp add: demo_database_def)
  from saveAnalysis_demo [OF h, of JNull]
  have "saveAnalysis demo_database JNull = (1000, Inr (JStr (''demo-id-'' @ number_to_string (now demo_database))))"
    by (rule conjunct1)
  then show ?thesis
    using h unfolding n digits_example by simp
qed

section \<open>Properties of the PDF report\<close>

lemma report_leaves_events: "events_of (audio_after_report audioData) = events_of audioData"
  by (simp add: audio_after_report_def generatePDFReport_def events_of_def Let_def
      split: option.splits)

lemma report_sorts_spectrum:
  "spectrum_of (audio_after_report audioData) = array_sort by_magnitude (spectrum_of audioData)"
  by (simp add: audio_after_report_def generatePDFReport_def spectrum_of_def Let_def array_sort_def
      split: option.splits)

text \<open>
  Claim C2 at a concrete upload. The analysis result has the spectrum points of 100 Hz
  (magnitude 0.2) and 200 Hz (magnitude 0.9), in this order. After
  \<open>generatePDFReport\<close> has returned, the caller's \<open>frequencySpectrum\<close> holds them in
  the other order, while \<open>soundEvents\<close> is as before.
\<close>

theorem report_reorders_spectrum:
  "spectrum_of two_point_audio = [low_point, high_point]
   \<and> spectrum_of (audio_after_report two_point_audio) = [high_point, low_point]
   \<and> spectrum_of (audio_after_report two_point_audio) \<noteq> spectrum_of two_point_audio
   \<and> events_of (audio_after_report two_point_audio) = events_of two_point_audio"
proof -
  have b: "spectrum_of two_point_audio = [low_point, high_point]"
    by (simp add: spectrum_of_def two_point_audio_def two_point_result_def)
  have s: "array_sort by_magnitude [low_point, high_point] = [high_point, low_point]"
    by (simp add: array_sort_def by_magnitude_def num_or_def low_point_def high_point_def)
  have d: "[high_point, low_point] \<noteq> [low_point, high_point]"
    by (simp add: low_point_def high_point_def)
  show ?thesis
    unfolding report_sorts_spectrum report_leaves_events b s using d by simp
qed

section \<open>Properties of the sonar view\<close>

text \<open>
  Claim C9. A click inside the sonar radius on a result whose list of sound events is
  empty throws the TypeError of \<open>reduce\<close> on an empty array without initial value.
\<close>

theorem click_on_empty_result:
  assumes "soundEvents results = []"
    and "sqrt ((clientX event - rect_left cv - canvas_width cv / 2)
                 * (clientX event - rect_left cv - canvas_width cv / 2)
               + (clientY event - rect_top cv - canvas_height cv / 2)
                 * (clientY event - rect_top cv - canvas_height cv / 2))
           \<le> min (canvas_width cv) (canvas_height cv) / 2 - 40"
  shows "handleCanvas2DClick results cv selectedEvent event = Inl TypeError_reduce"
  using assms by (simp add: handleCanvas2DClick_def Let_def reduce1_def)

theorem click_on_empty_result_witness:
  "soundEvents silent_result = []
   \<and> handleCanvas2DClick silent_result square_canvas None centre_click = Inl TypeError_reduce"
proof -
  have h1: "soundEvents silent_result = []"
    by (simp add: silent_result_def)
  have h2: "sqrt ((clientX centre_click - rect_left square_canvas - canvas_width square_canvas / 2)
                 * (clientX centre_click - rect_left square_canvas - canvas_width square_canvas / 2)
               + (clientY centre_click - rect_top square_canvas - canvas_height square_canvas / 2)
                 * (clientY centre_click - rect_top square_canvas - canvas_height square_canvas / 2))
           \<le> min (canvas_width square_canvas) (canvas_height square_canvas) / 2 - 40"
    by (simp add: centre_click_def square_canvas_def)
  from click_on_empty_result [OF h1 h2] h1 show ?thesis
    by (intro conjI)
qed

section \<open>Properties of the analysis pipeline\<close>

lemma ceiling_div_nat:
  assumes "0 < f"
  shows "\<lceil>real n / real f\<rceil> = int ((n + f - 1) div f)"
proof -
  define q where "q = (n + f - 1) div f"
  have m: "n + f - 1 = q * f + (n + f - 1) mod f"
    unfolding q_def by simp
  have r: "(n + f - 1) mod f < f"
    using assms by simp
  have lo: "n \<le> q * f"
    using m r assms by linarith
  have f0: "0 < real f" using assms by simp
  show ?thesis
    unfolding q_def [symmetric]
  proof (rule ceiling_unique)
    have "real n \<le> real (q * f)" using lo by (simp only: of_nat_le_iff)
    then show "real n / real f \<le> of_int (int q)"
      using f0 by (simp add: pos_divide_le_eq)
    have "q * f < n + f" using m assms by linarith
    then have "real (q * f) < real (n + f)" by (simp only: of_nat_less_iff)
    then have "real q * real f - real f < real n" by simp
    then have "(real q - 1) * real f < real n" by (simp add: algebra_simps)
    then show "of_int (int q) - 1 < real n / real f"
      using f0 by (simp add: pos_less_divide_eq)
  qed
qed

lemma frames_from_step:
  "0 < len \<Longrightarrow>
     frames_from len len xs i =
       (if length xs \<le> i then []
        else \<lparr>start = i, frame_samples = zero_pad len (take len (drop i xs))\<rparr>
               # frames_from len len xs (i + len))"
  by (simp add: frames_from.simps [of len len xs i] frames_from.simps [of len len xs "i + len"])

lemma frames_from_length_aux:
  "hop = len \<Longrightarrow> 0 < len \<Longrightarrow>
     length (frames_from len hop xs i) = (length xs - i + len - 1) div len"
proof (induction len hop xs i rule: frames_from.induct)
  case (1 len hop xs i)
  note h = \<open>hop = len\<close>
  have "length (frames_from len len xs i) = (length xs - i + len - 1) div len"
  proof (cases "length xs \<le> i")
    case True
    then show ?thesis using "1.prems" by (simp add: frames_from.simps)
  next
    case False
    have ih: "length (frames_from len len xs (i + len)) = (length xs - (i + len) + len - 1) div len"
    proof (cases "length xs \<le> i + len")
      case True
      then show ?thesis
        using "1.prems" by (simp add: frames_from.simps [of len len xs "i + len"])
    next
      case far: False
      then show ?thesis using False "1.IH" "1.prems" by simp
    qed
    have "Suc ((length xs - (i + len) + len - 1) div len) = (length xs - i + len - 1) div len"
    proof (cases "len \<le> length xs - i")
      case True
      have e1: "length xs - (i + len) + len - 1 = length xs - i - 1"
        using True "1.prems" by simp
      have e2: "length xs - i + len - 1 = (length xs - i - 1) + len"
        using True "1.prems" by simp
      show ?thesis
        unfolding e1 e2 using "1.prems" by (simp only: div_add_self2)
    next
      case short: False
      then have a: "length xs - (i + len) + len - 1 = len - 1" by simp
      have b: "len \<le> length xs - i + len - 1" "length xs - i + len - 1 < 2 * len"
        using False short by simp_all
      have "(length xs - i + len - 1) div len = 1"
        using b "1.prems" by (simp add: div_nat_eqI)
      then show ?thesis using a "1.prems" by simp
    qed
    then show ?thesis
      using False "1.prems" ih by (simp add: frames_from_step [of len xs i])
  qed
  then show ?case unfolding h .
qed

lemma frames_from_sizes:
  "list_all (\<lambda>fr. length (frame_samples fr) = f) (frames_from f h xs i)"
proof (induction f h xs i rule: frames_from.induct)
  case (1 len hop xs i)
  show ?case
  proof (cases "hop = 0 \<or> length xs \<le> i")
    case True
    then show ?thesis by (simp add: frames_from.simps)
  next
    case False
    then show ?thesis
      using "1.IH" by (simp add: frames_from.simps [of len hop xs i] zero_pad_def)
  qed
qed

lemma frames_from_length:
  "0 < f \<Longrightarrow> length (frames_from f f xs i) = (length xs - i + f - 1) div f"
  by (rule frames_from_length_aux) simp_all

lemma frames_from_concat_aux:
  "hop = len \<Longrightarrow> 0 < len \<Longrightarrow>
     concat (map frame_samples (frames_from len hop xs i))
       = drop i xs @ replicate (length (frames_from len hop xs i) * len - (length xs - i)) 0"
proof (induction len hop xs i rule: frames_from.induct)
  case (1 len hop xs i)
  note h = \<open>hop = len\<close>
  have "concat (map frame_samples (frames_from len len xs i))
       = drop i xs @ replicate (length (frames_from len len xs i) * len - (length xs - i)) 0"
  proof (cases "length xs \<le> i")
    case True
    then show ?thesis by (simp add: frames_from.simps)
  next
    case False
    have ih: "concat (map frame_samples (frames_from len len xs (i + len)))
       = drop (i + len) xs @ replicate (length (frames_from len len xs (i + len)) * len - (length xs - (i + len))) 0"
    proof (cases "length xs \<le> i + len")
      case True
      then show ?thesis
        by (simp add: frames_from.simps [of len len xs "i + len"])
    next
      case far: False
      then show ?thesis using False "1.IH" "1.prems" by simp
    qed
    have unf: "frames_from len len xs i =
        \<lparr>start = i, frame_samples = zero_pad len (take len (drop i xs))\<rparr> # frames_from len len xs (i + len)"
      using False "1.prems" by (simp add: frames_from_step [of len xs i])
    show ?thesis
    proof (cases "len \<le> length xs - i")
      case True
      have p: "zero_pad len (take len (drop i xs)) = take len (drop i xs)"
        using True by (simp add: zero_pad_def)
      have td: "take len (drop i xs) @ drop (i + len) xs = drop i xs"
        by (metis add.commute append_take_drop_id drop_drop)
      have c: "length (frames_from len len xs i) * len - (length xs - i)
             = length (frames_from len len xs (i + len)) * len - (length xs - (i + len))"
        unfolding unf using True by simp
      have "concat (map frame_samples (frames_from len len xs i))
              = take len (drop i xs) @ concat (map frame_samples (frames_from len len xs (i + len)))"
        unfolding unf by (simp add: p)
      also have "\<dots> = (take len (drop i xs) @ drop (i + len) xs)
              @ replicate (length (frames_from len len xs (i + len)) * len - (length xs - (i + len))) 0"
        by (simp only: ih append_assoc)
      also have "\<dots> = drop i xs
              @ replicate (length (frames_from len len xs i) * len - (length xs - i)) 0"
        by (simp only: td c)
      finally show ?thesis .
    next
      case short: False
      have e: "frames_from len len xs (i + len) = []"
        using short by (simp add: frames_from.simps [of len len xs "i + len"])
      have p: "zero_pad len (take len (drop i xs)) = drop i xs @ replicate (len - (length xs - i)) 0"
        using short by (simp add: zero_pad_def)
      show ?thesis
        unfolding unf e by (simp add: p)
    qed
  qed
  then show ?case unfolding h .
qed

lemma frames_from_concat:
  "0 < f \<Longrightarrow>
     concat (map frame_samples (frames_from f f xs i))
       = drop i xs @ replicate (length (frames_from f f xs i) * f - (length xs - i)) 0"
  by (rule frames_from_concat_aux) simp_all

text \<open>
  Claim C7. For a waveform with at least one sample and a configuration whose hop size
  equals its positive frame size, the Frame Segmenter produces exactly
  \<open>ceil(sampleCount / frameSize)\<close> frames of frameSize samples each. The frames in
  their order are the waveform followed by zeros up to the full length, so zeros are
  added only when the sample count is not a multiple of the frame size; a waveform of
  exactly frameSize samples gives one frame, the waveform itself.
\<close>

theorem segment_without_overlap:
  assumes "samples w \<noteq> []" and "0 < frameSize cfg" and "hopSize cfg = frameSize cfg"
  shows "\<exists>frames. segment cfg w = Inr frames
       \<and> int (length frames) = \<lceil>real (length (samples w)) / real_of_int (frameSize cfg)\<rceil>
       \<and> list_all (\<lambda>fr. int (length (frame_samples fr)) = frameSize cfg) frames
       \<and> concat (map frame_samples frames)
           = samples w @ replicate (length frames * nat (frameSize cfg) - length (samples w)) 0
       \<and> (nat (frameSize cfg) dvd length (samples w) \<longrightarrow> concat (map frame_samples frames) = samples w)
       \<and> (int (length (samples w)) = frameSize cfg \<longrightarrow>
            frames = [\<lparr>start = 0, frame_samples = samples w\<rparr>])"
proof -
  define f where "f = nat (frameSize cfg)"
  define n where "n = length (samples w)"
  define frames where "frames = frames_from f f (samples w) 0"
  have f0: "0 < f" and fi: "frameSize cfg = int f"
    using assms(2) by (simp_all add: f_def)
  have n0: "0 < n" using assms(1) by (simp add: n_def)
  have seg: "segment cfg w = Inr frames"
    using assms(2,3) by (simp add: segment_def frames_def f_def)
  have len: "length frames = (n + f - 1) div f"
    unfolding frames_def n_def using frames_from_length [OF f0, of "samples w" 0] by simp
  have cl: "int (length frames) = \<lceil>real n / real_of_int (frameSize cfg)\<rceil>"
    unfolding len fi using ceiling_div_nat [OF f0, of n] by simp
  have sz: "list_all (\<lambda>fr. int (length (frame_samples fr)) = frameSize cfg) frames"
    unfolding frames_def fi using frames_from_sizes [of f f "samples w" 0] by simp
  have cc: "concat (map frame_samples frames) = samples w @ replicate (length frames * f - n) 0"
    unfolding frames_def n_def using frames_from_concat [OF f0, of "samples w" 0] by simp
  have ex: "concat (map frame_samples frames) = samples w" if "f dvd n"
  proof -
    from that obtain k where k: "n = f * k" by (auto simp: dvd_def)
    have "k \<noteq> 0" using n0 k by (cases k) simp_all
    then have "(f * k + f - 1) div f = k"
      using f0 by (simp add: div_nat_eqI algebra_simps)
    then have "length frames * f - n = 0" using len k by simp
    then show ?thesis using cc by simp
  qed
  have one: "frames = [\<lparr>start = 0, frame_samples = samples w\<rparr>]" if "n = f"
    using that f0 unfolding frames_def n_def
    by (simp add: frames_from.simps [of f f "samples w" 0] frames_from.simps [of f f "samples w" f]
        zero_pad_def)
  show ?thesis
    using seg cl sz cc ex one unfolding n_def [symmetric] f_def [symmetric]
    by (auto simp: fi)
qed

theorem segment_without_overlap_witness:
  "samples five_samples \<noteq> [] \<and> 0 < frameSize sample_config
   \<and> hopSize sample_config = frameSize sample_config
   \<and> length (samples five_samples) = 5 \<and> frameSize sample_config = 2
   \<and> (\<exists>frames. segment sample_config five_samples = Inr frames \<and> length frames = 3)"
proof -
  have h1: "samples five_samples \<noteq> []"
    by (simp add: five_samples_def)
  have h2: "0 < frameSize sample_config"
    by (simp add: sample_config_def)
  have h3: "hopSize sample_config = frameSize sample_config"
    by (simp add: sample_config_def)
  have n: "length (samples five_samples) = 5" and f: "frameSize sample_config = 2"
    by (simp_all add: five_samples_def sample_config_def)
  have c: "\<lceil>real (length (samples five_samples)) / real_of_int (frameSize sample_config)\<rceil> = 3"
    unfolding n f by simp
  from segment_without_overlap [OF h1 h2 h3] obtain frames
    where "segment sample_config five_samples = Inr frames"
      and "int (length frames) = \<lceil>real (length (samples five_samples)) / real_of_int (frameSize sample_config)\<rceil>"
    by blast
  then have "segment sample_config five_samples = Inr frames \<and> length frames = 3"
    unfolding c by simp
  then have "\<exists>frames. segment sample_config five_samples = Inr frames \<and> length frames = 3" ..
  with h1 h2 h3 n f show ?thesis
    by (intro conjI)
qed

lemma burst_frames:
  "segment sample_config burst
     = Inr [\<lparr>start = 0, frame_samples = [1, 1]\<rparr>, \<lparr>start = 2, frame_samples = [0, 0]\<rparr>]"
  by (simp add: segment_def sample_config_def burst_def frames_from.simps zero_pad_def)

lemma burst_features:
  "map (extract_features sample_tuning sample_config burst)
       [\<lparr>start = 0, frame_samples = [1, 1]\<rparr>, \<lparr>start = 2, frame_samples = [0, 0]\<rparr>]
     = [\<lparr>ft_time = 0, ft_rms = 1, ft_decibels = 0, ft_frequency = 0\<rparr>,
        \<lparr>ft_time = 1 / 4000, ft_rms = 0, ft_decibels = - 60, ft_frequency = 0\<rparr>]"
  by (simp add: extract_features_def rms_def decibels_def reference_def sample_config_def
      sample_tuning_def burst_def dominant_def spectrum_points_def one_bin_def stronger_def)

lemma burst_spectrum:
  "concat (map (spectrum_points sample_tuning burst)
       [\<lparr>start = 0, frame_samples = [1, 1]\<rparr>, \<lparr>start = 2, frame_samples = [0, 0]\<rparr>])
     = [\<lparr>sp_frequency = 0, sp_magnitude = 0, sp_time = 0\<rparr>,
        \<lparr>sp_frequency = 0, sp_magnitude = 0, sp_time = 1 / 4000\<rparr>]"
  by (simp add: spectrum_points_def sample_tuning_def burst_def one_bin_def)

lemma burst_detect:
  "detect sample_tuning sample_config burst
       [\<lparr>ft_time = 0, ft_rms = 1, ft_decibels = 0, ft_frequency = 0\<rparr>,
        \<lparr>ft_time = 1 / 4000, ft_rms = 0, ft_decibels = - 60, ft_frequency = 0\<rparr>]
     = [\<lparr>onset = 0, peakAmplitude = 1, peakFrequency = 0, peakDecibels = 0, quietMs = 1 / 4\<rparr>]"
  by (simp add: detect_def detect_step_def flush_def open_candidate_def hop_ms_def Let_def
      sample_tuning_def sample_config_def burst_def)

lemma burst_analysis: "analyze sample_tuning sample_config burst = Inr burst_result"
  unfolding analyze_def burst_frames
  apply (simp only: sum.case Let_def burst_features burst_spectrum burst_detect)
  apply (simp add: burst_def aggregate_def classified_def mean_def dominant_def stronger_def
      burst_result_def burst_event_def sample_tuning_def always_unknown_def)
  done

lemma frames_from_silent:
  "list_all (\<lambda>x. x = 0) xs \<Longrightarrow>
     list_all (\<lambda>fr. list_all (\<lambda>x. x = 0) (frame_samples fr)) (frames_from len hop xs i)"
proof (induction len hop xs i rule: frames_from.induct)
  case (1 len hop xs i)
  show ?case
  proof (cases "hop = 0 \<or> length xs \<le> i")
    case True
    then show ?thesis by (simp add: frames_from.simps)
  next
    case False
    have "list_all (\<lambda>x. x = 0) (take len (drop i xs))"
      using "1.prems" by (auto simp: list_all_iff dest: in_set_takeD in_set_dropD)
    then have "list_all (\<lambda>x. x = 0) (zero_pad len (take len (drop i xs)))"
      by (auto simp: zero_pad_def list_all_iff)
    then show ?thesis
      using False "1.IH" "1.prems" by (simp add: frames_from.simps [of len hop xs i])
  qed
qed

lemma frames_from_nonempty: "0 < hop \<Longrightarrow> xs \<noteq> [] \<Longrightarrow> frames_from len hop xs 0 \<noteq> []"
  by (simp add: frames_from.simps [of len hop xs 0])

lemma squares_silent: "list_all (\<lambda>x. x = 0) xs \<Longrightarrow> sum_list (map (\<lambda>x. x * x) xs) = (0::real)"
  by (induction xs) simp_all

lemma rms_silent: "list_all (\<lambda>x. x = 0) xs \<Longrightarrow> rms xs = 0"
  by (simp add: rms_def squares_silent)

lemma features_silent:
  "list_all (\<lambda>x. x = 0) (frame_samples f) \<Longrightarrow>
     ft_rms (extract_features tun cfg w f) = 0
     \<and> ft_decibels (extract_features tun cfg w f) = floorDb tun"
  by (simp add: extract_features_def rms_silent decibels_def)

lemma detect_step_silent:
  assumes "0 \<le> sensitivityFactor cfg" and "valid_tuning tun"
    and "state d = Idle" and "0 \<le> noiseFloor d" and "emitted d = []" and "ft_rms f = 0"
  shows "state (detect_step tun cfg w d f) = Idle
       \<and> 0 \<le> noiseFloor (detect_step tun cfg w d f)
       \<and> emitted (detect_step tun cfg w d f) = []"
proof -
  have t: "\<not> noiseFloor d * sensitivityFactor cfg < 0"
    using assms(1,4) by (simp add: not_less)
  have n: "0 \<le> (1 - smoothing tun) * noiseFloor d"
    using assms(2,4) by (simp add: valid_tuning_def)
  show ?thesis
    using t n assms(3,5,6) by (simp add: detect_step_def Let_def)
qed

lemma detect_fold_silent:
  assumes "0 \<le> sensitivityFactor cfg" and "valid_tuning tun"
  shows "list_all (\<lambda>f. ft_rms f = 0) fs \<Longrightarrow>
         state d = Idle \<Longrightarrow> 0 \<le> noiseFloor d \<Longrightarrow> emitted d = [] \<Longrightarrow>
         state (foldl (detect_step tun cfg w) d fs) = Idle
         \<and> emitted (foldl (detect_step tun cfg w) d fs) = []"
proof (induction fs arbitrary: d)
  case Nil
  then show ?case by simp
next
  case (Cons f fs)
  have r: "ft_rms f = 0" and rest: "list_all (\<lambda>f. ft_rms f = 0) fs"
    using Cons.prems(1) by simp_all
  note s = detect_step_silent [OF assms Cons.prems(2,3,4) r, of w]
  show ?case
    using Cons.IH [OF rest, of "detect_step tun cfg w d f"] s by simp
qed

lemma detect_silent:
  assumes "0 \<le> sensitivityFactor cfg" and "valid_tuning tun"
    and "list_all (\<lambda>f. ft_rms f = 0) fs"
  shows "detect tun cfg w fs = []"
proof -
  have "0 \<le> initialNoiseFloor tun"
    using assms(2) by (simp add: valid_tuning_def)
  then show ?thesis
    using detect_fold_silent [OF assms(1,2,3),
        of "\<lparr>state = Idle, noiseFloor = initialNoiseFloor tun, emitted = []\<rparr>" w]
    by (simp add: detect_def flush_def)
qed

lemma mean_silent: "list_all (\<lambda>x. x = 0) xs \<Longrightarrow> mean xs = 0"
proof -
  have "list_all (\<lambda>x. x = 0) xs \<Longrightarrow> sum_list xs = (0::real)"
    by (induction xs) simp_all
  then show "list_all (\<lambda>x. x = 0) xs \<Longrightarrow> mean xs = 0"
    by (simp add: mean_def)
qed

lemma analyze_silent:
  assumes "valid_config cfg" and "valid_tuning tun" and "silent w"
  shows "analyze tun cfg w =
           Inr (aggregate tun w
                  (map (extract_features tun cfg w)
                     (frames_from (nat (frameSize cfg)) (nat (hopSize cfg)) (samples w) 0))
                  []
                  (concat (map (spectrum_points tun w)
                     (frames_from (nat (frameSize cfg)) (nat (hopSize cfg)) (samples w) 0))))"
    and "list_all (\<lambda>f. ft_rms f = 0)
           (map (extract_features tun cfg w)
              (frames_from (nat (frameSize cfg)) (nat (hopSize cfg)) (samples w) 0))"
proof -
  let ?frames = "frames_from (nat (frameSize cfg)) (nat (hopSize cfg)) (samples w) 0"
  have seg: "segment cfg w = Inr ?frames"
    using assms(1) by (simp add: segment_def valid_config_def)
  have z: "list_all (\<lambda>x. x = 0) (samples w)" and ne: "samples w \<noteq> []"
    using assms(3) by (simp_all add: silent_def)
  have "list_all (\<lambda>fr. list_all (\<lambda>x. x = 0) (frame_samples fr)) ?frames"
    using z by (rule frames_from_silent)
  then show q: "list_all (\<lambda>f. ft_rms f = 0) (map (extract_features tun cfg w) ?frames)"
    by (simp add: list_all_iff features_silent)
  have sf: "0 \<le> sensitivityFactor cfg"
    using assms(1) by (simp add: valid_config_def)
  have d: "detect tun cfg w (map (extract_features tun cfg w) ?frames) = []"
    using sf assms(2) q by (rule detect_silent)
  show "analyze tun cfg w =
           Inr (aggregate tun w (map (extract_features tun cfg w) ?frames) []
                  (concat (map (spectrum_points tun w) ?frames)))"
    unfolding analyze_def seg using ne by (simp add: Let_def d)
qed

text \<open>
  Claim C8. For every silent waveform of positive duration, every admissible
  configuration and every admissible choice of the open constants, the pipeline returns
  a result (no error) with no sound events, detectedSounds 0 and averageRMS 0; and the
  features of a frame of zeros (also of an empty frame) are the zero RMS and the
  decibel floor.
\<close>

theorem silence_is_no_error:
  assumes "valid_config cfg" and "valid_tuning tun" and "silent w"
  shows "(\<exists>r. analyze tun cfg w = Inr r
            \<and> detectedSounds r = 0 \<and> soundEvents r = [] \<and> averageRMS r = 0
            \<and> duration r = real (length (samples w)) / rate w \<and> 0 < duration r)
       \<and> (\<forall>f. list_all (\<lambda>x. x = 0) (frame_samples f) \<longrightarrow>
              ft_rms (extract_features tun cfg w f) = 0
              \<and> ft_decibels (extract_features tun cfg w f) = floorDb tun)"
proof -
  let ?frames = "frames_from (nat (frameSize cfg)) (nat (hopSize cfg)) (samples w) 0"
  let ?fs = "map (extract_features tun cfg w) ?frames"
  note a = analyze_silent [OF assms]
  have m: "mean (map ft_rms ?fs) = 0"
    using a(2) by (intro mean_silent) (simp add: list_all_iff)
  have p: "0 < real (length (samples w)) / rate w"
    using assms(3) by (simp add: silent_def)
  show ?thesis
    unfolding a(1) using m p by (simp add: aggregate_def features_silent)
qed

lemma silence_valid:
  "valid_config sample_config" "valid_tuning sample_tuning" "silent silence"
  by (simp_all add: valid_config_def valid_tuning_def silent_def sample_config_def
      sample_tuning_def silence_def)

theorem silence_is_no_error_witness:
  "valid_config sample_config \<and> valid_tuning sample_tuning \<and> silent silence
   \<and> (\<exists>r. analyze sample_tuning sample_config silence = Inr r
          \<and> detectedSounds r = 0 \<and> soundEvents r = [] \<and> averageRMS r = 0)"
proof -
  from silence_is_no_error [OF silence_valid]
  have "\<exists>r. analyze sample_tuning sample_config silence = Inr r
          \<and> detectedSounds r = 0 \<and> soundEvents r = [] \<and> averageRMS r = 0"
    by blast
  with silence_valid show ?thesis
    by (intro conjI)
qed

lemma analyze_count: "analyze tun cfg w = Inr r \<Longrightarrow> detectedSounds r = length (soundEvents r)"
  by (auto simp: analyze_def aggregate_def Let_def split: sum.splits if_splits)

text \<open>
  Claim C1. In every analysis result that the pipeline produces, detectedSounds is the
  length of soundEvents. The sonar view, which shows detectedSounds as "Total Events",
  therefore shows the number of the events in the list it renders: the number of blips
  it draws, and "N/A" as the decibel range exactly when it shows no event.
\<close>

theorem detected_sounds_is_event_count:
  assumes "analyze tun cfg w = Inr r"
  shows "detectedSounds r = length (soundEvents r)
       \<and> total_events (detection_stats r) = length (soundEvents r)
       \<and> length (blips r cv) = total_events (detection_stats r)
       \<and> (decibel_range (detection_stats r) = None) = (total_events (detection_stats r) = 0)"
proof -
  have c: "detectedSounds r = length (soundEvents r)"
    using assms by (rule analyze_count)
  show ?thesis
    unfolding detection_stats_def blips_def c
    by (cases "soundEvents r") (simp_all add: Let_def)
qed

theorem detected_sounds_is_event_count_witness:
  "analyze sample_tuning sample_config burst = Inr burst_result
   \<and> detectedSounds burst_result = length (soundEvents burst_result)
   \<and> length (soundEvents burst_result) = 1
   \<and> total_events (detection_stats burst_result) = length (soundEvents burst_result)
   \<and> length (blips burst_result square_canvas) = total_events (detection_stats burst_result)"
proof -
  note t = detected_sounds_is_event_count [OF burst_analysis, of square_canvas]
  have l: "length (soundEvents burst_result) = 1"
    by (simp add: burst_result_def)
  from t have "detectedSounds burst_result = length (soundEvents burst_result)"
    and "total_events (detection_stats burst_result) = length (soundEvents burst_result)"
    and "length (blips burst_result square_canvas) = total_events (detection_stats burst_result)"
    by blast+
  with burst_analysis l show ?thesis
    by (intro conjI)
qed

end
